theory Spec2Isabelle
  imports Complex_Main "HOL-Library.Char_ord" "HOL-Library.List_Lexorder"
begin

section \<open>The effective-area histogram stage (pisa/stages/aeff/hist.py)\<close>

text \<open>
  The stage \<open>hist\<close> computes, from a file of Monte Carlo events, one effective-area
  histogram per group of neutrino flavour/interaction types (the nominal transforms) and
  rescales them by live time, a scale and a normalisation of the tau charged-current
  channels. The model below follows the source method by method. numpy arrays live in
  an explicit store, because the source shares one array between several transforms and
  divides a histogram in place; a finite floating-point number is idealised as a real.
\<close>

subsection \<open>Errors\<close>

text \<open>
  The exceptions the source can raise. \<open>ValueError\<close> carries the message text and the
  list that is formatted into it (empty when the message has no argument).
\<close>

datatype error =
    AssertionError
  | UnboundLocalError
  | AttributeError
  | IndexError
  | ValueError string "string list"

subsection \<open>Binnings, quantities and parameters\<close>

record dimension =
  dim_name :: string
  dim_units :: "string option"
  bin_edges :: "real list"

type_synonym MultiDimBinning = "dimension list"

definition names :: "MultiDimBinning \<Rightarrow> string list" where
  "names b = map dim_name b"

text \<open>\<open>name in binning\<close>: a binning contains a dimension of that name.\<close>

definition in_binning :: "string \<Rightarrow> MultiDimBinning \<Rightarrow> bool" where
  "in_binning n b = (n \<in> set (names b))"

record quantity =
  magnitude :: real
  q_units :: string

record 'src param_set =
  aeff_weight_file :: 'src
  livetime :: quantity
  aeff_scale :: quantity
  nutau_cc_norm :: quantity

subsection \<open>Arrays\<close>

text \<open>
  An element of a numpy array of floats is a finite number, idealised as a real, or a
  number that is not finite (an infinity or a NaN). A finite number divided by zero is not
  finite; a number that is not finite, multiplied or divided by a finite number, is not
  finite either. Scalars and bin volumes are finite.
\<close>

datatype np_float = Finite real | NotFinite

fun fmul :: "np_float \<Rightarrow> real \<Rightarrow> np_float" where
  "fmul (Finite x) c = Finite (x * c)"
| "fmul NotFinite c = NotFinite"

fun fdiv :: "np_float \<Rightarrow> real \<Rightarrow> np_float" where
  "fdiv (Finite x) d = (if d = 0 then NotFinite else Finite (x / d))"
| "fdiv NotFinite d = NotFinite"

text \<open>
  An array is its shape and its elements by index; only the indices within the shape
  matter. The source never reads a single element.
\<close>

record 'a ndarray =
  shape :: "nat list"
  item :: "nat list \<Rightarrow> 'a"

definition in_bounds :: "nat list \<Rightarrow> nat list \<Rightarrow> bool" where
  "in_bounds idx s = list_all2 (<) idx s"

text \<open>\<open>a * c\<close> for an array and a number: a new array of the same shape.\<close>

definition times_scalar :: "np_float ndarray \<Rightarrow> real \<Rightarrow> np_float ndarray" where
  "times_scalar a c = \<lparr>shape = shape a, item = (\<lambda>idx. fmul (item a idx) c)\<rparr>"

definition volumes_times :: "real ndarray \<Rightarrow> real \<Rightarrow> real ndarray" where
  "volumes_times v c = \<lparr>shape = shape v, item = (\<lambda>idx. item v idx * c)\<rparr>"

text \<open>
  \<open>a /= b\<close>, numpy's division in place. The divisor is broadcast to the shape of \<open>a\<close>: its
  shape is aligned with the last axes of \<open>a\<close>, and on each axis it has the length of \<open>a\<close> or
  the length 1, in which case its one element is used along the whole axis. A divisor with
  more axes than \<open>a\<close>, or with another length on some axis, is a \<open>ValueError\<close> (numpy has
  two messages for it, which are not told apart here).
\<close>

definition broadcasts_to :: "nat list \<Rightarrow> nat list \<Rightarrow> bool" where
  "broadcasts_to sb sa =
     (length sb \<le> length sa \<and>
      list_all2 (\<lambda>b a. b = a \<or> b = 1) sb (drop (length sa - length sb) sa))"

definition bcast_index :: "nat list \<Rightarrow> nat list \<Rightarrow> nat list" where
  "bcast_index sb idx =
     map2 (\<lambda>b j. if b = 1 then 0 else j) sb (drop (length idx - length sb) idx)"

definition broadcast_msg :: string where
  "broadcast_msg = ''operands could not be broadcast together''"

definition idivide :: "np_float ndarray \<Rightarrow> real ndarray \<Rightarrow> error + np_float ndarray" where
  "idivide a b =
     (if \<not> broadcasts_to (shape b) (shape a) then Inl (ValueError broadcast_msg [])
      else Inr \<lparr>shape = shape a,
                item = (\<lambda>idx. fdiv (item a idx) (item b (bcast_index (shape b) idx)))\<rparr>)"

text \<open>
  The store is the list of the arrays allocated so far; an address is an index into it.
  Allocation appends, so an allocated array is never at the address of an older one.
\<close>

type_synonym heap = "np_float ndarray list"

definition alloc :: "heap \<Rightarrow> np_float ndarray \<Rightarrow> nat \<times> heap" where
  "alloc h a = (length h, h @ [a])"

subsection \<open>Transforms and the stage\<close>

text \<open>
  \<open>BinnedTensorTransform\<close> keeps the array it is given by reference: \<open>xform_array\<close> is an
  address. A single input name given as a string is kept as a one-element list.
\<close>

record transform =
  input_names :: "string list"
  output_name :: string
  input_binning :: MultiDimBinning
  output_binning :: MultiDimBinning
  xform_array :: nat
  sum_inputs :: bool

text \<open>
  The attributes of the stage object. \<open>events\<close> does not exist before the first load
  (\<open>None\<close>); \<open>events_hash\<close> is Python's \<open>None\<close> until then.
\<close>

record ('k, 'src, 'e) stage =
  events_hash :: "nat option"
  events :: "'e option"
  particles :: string
  transform_groups :: "'k list list"
  sum_grouped_flavints :: bool
  params :: "'src param_set"
  stage_input_names :: "string list"
  stage_output_names :: "string list"
  stage_input_binning :: MultiDimBinning
  stage_output_binning :: MultiDimBinning
  error_method :: "string option"
  nominal_transforms :: "transform list"

subsection \<open>Collaborators\<close>

text \<open>
  The modules \<open>pisa.utils.flavInt\<close>, \<open>pisa.utils.hash\<close>, \<open>pisa.core.events\<close>,
  \<open>pisa.core.binning\<close> and the unit library are not part of this stage. Their
  functions are parameters of the model, gathered in one record; every theorem below
  holds for all of them. A flavour/interaction type is a value of type \<open>'k\<close>, a group
  (\<open>NuFlavIntGroup\<close>) the list of its members in iteration order.
\<close>

datatype names_arg = Str string | Seq "string list"

record ('k, 'src, 'e) env =
  hash_obj :: "'src \<Rightarrow> nat"
  Events :: "'src \<Rightarrow> 'e"
  histogram :: "'e \<Rightarrow> 'k list \<Rightarrow> real list list \<Rightarrow> string list \<Rightarrow> string \<Rightarrow> bool
                  \<Rightarrow> np_float ndarray"
  bin_volumes :: "MultiDimBinning \<Rightarrow> real ndarray"
  convert :: "string option \<Rightarrow> string option \<Rightarrow> real \<Rightarrow> real"
  m_as :: "quantity \<Rightarrow> string \<Rightarrow> real"
  flavintGroupsFromString :: "string \<Rightarrow> error + 'k list list"
  NuFlavIntGroup :: "names_arg \<Rightarrow> 'k list"
  str_group :: "'k list \<Rightarrow> string"
  str_flavint :: "'k \<Rightarrow> string"
  contains :: "'k list \<Rightarrow> string \<Rightarrow> bool"
  flavs :: "'k list \<Rightarrow> string list"

text \<open>
  \<open>contains env g name\<close> is \<open>name in g\<close>; \<open>flavs env g\<close> is
  \<open>[str(flav) for flav in g.flavs()]\<close>; \<open>m_as env q u\<close> is \<open>q.m_as(u)\<close>.
\<close>

subsection \<open>load_events\<close>

definition load_events ::
  "('k, 'src, 'e) env \<Rightarrow> ('k, 'src, 'e) stage \<Rightarrow> ('k, 'src, 'e) stage" where
  "load_events env self =
     (let evts = aeff_weight_file (params self);
          this_hash = hash_obj env evts
      in if Some this_hash = events_hash self then self
         else self\<lparr>events := Some (Events env evts), events_hash := Some this_hash\<rparr>)"

subsection \<open>The nominal transforms\<close>

text \<open>The units the computation is done in: \<open>comp_units\<close> of the source.\<close>

definition comp_units :: "(string \<times> string option) list" where
  "comp_units =
     [(''true_energy'', Some ''GeV''), (''true_coszen'', None), (''true_azimuth'', Some ''rad'')]"

text \<open>
  Modelled from the spec: \<open>MultiDimBinning.to\<close> is not part of this stage. The spec says
  that the binning is converted to the canonical units dimension by dimension, that only
  dimensions that are present are converted and that no dimension is made up; so the
  conversion keeps the names and their order, and rewrites the units and the edges of
  each dimension that has an entry in \<open>units\<close>.
\<close>

definition binning_to ::
  "('k, 'src, 'e) env \<Rightarrow> (string \<times> string option) list \<Rightarrow> MultiDimBinning \<Rightarrow> MultiDimBinning" where
  "binning_to env units b =
     map (\<lambda>d. case map_of units (dim_name d) of
                 None \<Rightarrow> d
               | Some u \<Rightarrow> d\<lparr>dim_units := u,
                              bin_edges := map (convert env (dim_units d) u) (bin_edges d)\<rparr>) b"

text \<open>
  \<open>np.pi\<close> is the double-precision number nearest to \<open>\<pi>\<close>, a rational number.
\<close>

definition np_pi :: real where
  "np_pi = 884279719003555 / 281474976710656"

text \<open>
  The factor for the dimensions the input binning leaves out, as the source computes it:
  it starts at 1 and is multiplied in place, first for the azimuth, then for the
  cosine of the zenith angle.
\<close>

definition missing_dims_vol :: "MultiDimBinning \<Rightarrow> real" where
  "missing_dims_vol ib =
     (let v0 = 1;
          v1 = (if \<not> in_binning ''true_azimuth'' ib then v0 * (2 * np_pi) else v0);
          v2 = (if \<not> in_binning ''true_coszen'' ib then v1 * 2 else v1)
      in v2)"

text \<open>
  \<open>excess_dims\<close>: the set difference of the names of the binning and the keys of
  \<open>comp_units\<close>, as a list without duplicates; \<open>sorted(excess_dims)\<close> is its \<open>sort\<close>
  (strings compare character by character, as in Python).
\<close>

definition excess_dims :: "MultiDimBinning \<Rightarrow> string list" where
  "excess_dims b = remdups (filter (\<lambda>n. n \<notin> set (map fst comp_units)) (names b))"

text \<open>
  Merged mode, first loop: the input names whose flavour/interaction types meet the
  group (\<open>len(set(xform_flavints).intersection(input_flavs)) > 0\<close>).
\<close>

fun xform_input_names :: "('k, 'src, 'e) env \<Rightarrow> 'k list \<Rightarrow> string list \<Rightarrow> string list" where
  "xform_input_names env xform_flavints [] = []"
| "xform_input_names env xform_flavints (input_name # rest) =
     (let input_flavs = NuFlavIntGroup env (Str input_name)
      in if set xform_flavints \<inter> set input_flavs \<noteq> {}
         then input_name # xform_input_names env xform_flavints rest
         else xform_input_names env xform_flavints rest)"

text \<open>Merged mode, second loop: one transform for each output name in the group.\<close>

fun sum_outputs ::
  "('k, 'src, 'e) env \<Rightarrow> ('k, 'src, 'e) stage \<Rightarrow> 'k list \<Rightarrow> string list \<Rightarrow> nat \<Rightarrow>
     string list \<Rightarrow> transform list" where
  "sum_outputs env self xform_flavints xin aeff_transform [] = []"
| "sum_outputs env self xform_flavints xin aeff_transform (out # rest) =
     (if \<not> contains env xform_flavints out
      then sum_outputs env self xform_flavints xin aeff_transform rest
      else \<lparr>input_names = xin,
            output_name = out,
            input_binning = stage_input_binning self,
            output_binning = stage_output_binning self,
            xform_array = aeff_transform,
            sum_inputs = sum_grouped_flavints self\<rparr>
           # sum_outputs env self xform_flavints xin aeff_transform rest)"

text \<open>Unmerged mode, inner loop over the output names, for one input name.\<close>

fun split_outputs ::
  "('k, 'src, 'e) env \<Rightarrow> ('k, 'src, 'e) stage \<Rightarrow> 'k list \<Rightarrow> string \<Rightarrow> nat \<Rightarrow>
     string list \<Rightarrow> transform list" where
  "split_outputs env self xform_flavints input_name aeff_transform [] = []"
| "split_outputs env self xform_flavints input_name aeff_transform (out # rest) =
     (if \<not> contains env xform_flavints out
      then split_outputs env self xform_flavints input_name aeff_transform rest
      else \<lparr>input_names = [input_name],
            output_name = out,
            input_binning = stage_input_binning self,
            output_binning = stage_output_binning self,
            xform_array = aeff_transform,
            sum_inputs = sum_grouped_flavints self\<rparr>
           # split_outputs env self xform_flavints input_name aeff_transform rest)"

text \<open>Unmerged mode, outer loop over the input names.\<close>

fun split_inputs ::
  "('k, 'src, 'e) env \<Rightarrow> ('k, 'src, 'e) stage \<Rightarrow> 'k list \<Rightarrow> nat \<Rightarrow> string list \<Rightarrow>
     transform list" where
  "split_inputs env self xform_flavints aeff_transform [] = []"
| "split_inputs env self xform_flavints aeff_transform (input_name # rest) =
     (let input_flavs = NuFlavIntGroup env (Str input_name)
      in if set xform_flavints \<inter> set input_flavs = {}
         then split_inputs env self xform_flavints aeff_transform rest
         else split_outputs env self xform_flavints input_name aeff_transform
                (stage_output_names self)
              @ split_inputs env self xform_flavints aeff_transform rest)"

text \<open>The transforms of one group, from the address of its effective-area array.\<close>

definition group_transforms ::
  "('k, 'src, 'e) env \<Rightarrow> ('k, 'src, 'e) stage \<Rightarrow> 'k list \<Rightarrow> nat \<Rightarrow> transform list" where
  "group_transforms env self xform_flavints aeff_transform =
     (if sum_grouped_flavints self
      then sum_outputs env self xform_flavints
             (xform_input_names env xform_flavints (stage_input_names self))
             aeff_transform (stage_output_names self)
      else split_inputs env self xform_flavints aeff_transform (stage_input_names self))"

text \<open>
  The body of the loop over the groups, for one group. The histogram comes back from the
  events object as a new array; it is divided in place by the bin volumes times the factor
  for the missing dimensions, and every transform of the group is given this one array.
  \<open>self.events\<close> is read here: it does not exist when no events were ever loaded.
\<close>

definition nominal_group ::
  "('k, 'src, 'e) env \<Rightarrow> ('k, 'src, 'e) stage \<Rightarrow> MultiDimBinning \<Rightarrow> real list list \<Rightarrow> real \<Rightarrow>
     'k list \<Rightarrow> heap \<Rightarrow> heap \<times> (error + transform list)" where
  "nominal_group env self ib all_bin_edges mdv xform_flavints h =
     (case events self of
        None \<Rightarrow> (h, Inl AttributeError)
      | Some evts \<Rightarrow>
          let (aeff_transform, h1) =
                alloc h (histogram env evts xform_flavints all_bin_edges
                           (names (stage_input_binning self)) ''weighted_aeff''
                           (error_method self \<noteq> None));
              vols = bin_volumes env ib
          in (case idivide (h1 ! aeff_transform) (volumes_times vols mdv) of
                Inl e \<Rightarrow> (h1, Inl e)
              | Inr divided \<Rightarrow>
                  (h1[aeff_transform := divided],
                   Inr (group_transforms env self xform_flavints aeff_transform))))"

text \<open>The loop over \<open>self.transform_groups\<close>; an exception ends it.\<close>

fun nominal_groups ::
  "('k, 'src, 'e) env \<Rightarrow> ('k, 'src, 'e) stage \<Rightarrow> MultiDimBinning \<Rightarrow> real list list \<Rightarrow> real \<Rightarrow>
     'k list list \<Rightarrow> heap \<Rightarrow> heap \<times> (error + transform list)" where
  "nominal_groups env self ib all_bin_edges mdv [] h = (h, Inr [])"
| "nominal_groups env self ib all_bin_edges mdv (xform_flavints # rest) h =
     (case nominal_group env self ib all_bin_edges mdv xform_flavints h of
        (h1, Inl e) \<Rightarrow> (h1, Inl e)
      | (h1, Inr ts) \<Rightarrow>
          (case nominal_groups env self ib all_bin_edges mdv rest h1 of
             (h2, Inl e) \<Rightarrow> (h2, Inl e)
           | (h2, Inr ts') \<Rightarrow> (h2, Inr (ts @ ts'))))"

text \<open>The texts of the two errors of the validation of the input binning.\<close>

definition missing_energy_msg :: string where
  \<open>missing_energy_msg = ''Input binning must contain "true_energy" dimension, but does not.''\<close>

definition extra_dims_msg :: string where
  "extra_dims_msg = ''Input binning has extra dimension(s): %s''"

text \<open>
  \<open>_compute_nominal_transforms\<close>. It returns the stage (\<open>load_events\<close> may have changed
  it), the store, and the exception raised or the list of the transform set.
\<close>

definition compute_nominal_transforms ::
  "('k, 'src, 'e) env \<Rightarrow> ('k, 'src, 'e) stage \<Rightarrow> heap \<Rightarrow>
     ('k, 'src, 'e) stage \<times> heap \<times> (error + transform list)" where
  \<open>compute_nominal_transforms env self0 h =
     (let self = load_events env self0
      in if \<not> in_binning ''true_energy'' (stage_input_binning self)
         then (self, h, Inl (ValueError missing_energy_msg []))
         else if length (excess_dims (stage_input_binning self)) > 0
         then (self, h, Inl (ValueError extra_dims_msg
                 (sort (excess_dims (stage_input_binning self)))))
         else
           let in_units = filter (\<lambda>(dim, unit). in_binning dim (stage_input_binning self))
                            comp_units;
               out_units = filter (\<lambda>(dim, unit). in_binning dim (stage_output_binning self))
                             comp_units;
               ib = binning_to env in_units (stage_input_binning self);
               ob = binning_to env out_units (stage_output_binning self);
               mdv = missing_dims_vol ib;
               all_bin_edges = map bin_edges ob;
               (h', r) = nominal_groups env self ib all_bin_edges mdv (transform_groups self) h
           in (self, h', r))\<close>

subsection \<open>The rescaled transforms\<close>

text \<open>
  The array of a group, computed from the first nominal transform \<open>t\<close> that matches it
  (the body of \<open>if aeff_transform is None\<close>). A product of an array and a number is a new
  array; the first product is dropped when the second is taken.
\<close>

definition first_match_array ::
  "('k, 'src, 'e) stage \<Rightarrow> real \<Rightarrow> real \<Rightarrow> transform \<Rightarrow> heap \<Rightarrow> nat \<times> heap" where
  "first_match_array self scale livetime_s t h =
     (let (a1, h1) = alloc h (times_scalar (h ! xform_array t) (scale * livetime_s))
      in if output_name t \<in> set [''nutau_cc'', ''nutaubar_cc'']
         then alloc h1 (times_scalar (h1 ! a1) (magnitude (nutau_cc_norm (params self))))
         else (a1, h1))"

text \<open>
  The inner loop of \<open>_compute_transforms\<close> over the nominal transforms, for one group.
  \<open>aeff\<close> is the variable \<open>aeff_transform\<close>: \<open>None\<close> until the first transform that
  matches, then the address of the array computed from that transform.
  \<open>transform.input_names[0]\<close> is evaluated for every transform and raises on an empty list.
\<close>

fun rescale_group ::
  "('k, 'src, 'e) env \<Rightarrow> ('k, 'src, 'e) stage \<Rightarrow> real \<Rightarrow> real \<Rightarrow> 'k list \<Rightarrow> string list \<Rightarrow>
     transform list \<Rightarrow> nat option \<Rightarrow> heap \<Rightarrow> heap \<times> (error + transform list)" where
  "rescale_group env self scale livetime_s xform_flavints flav_names [] aeff h = (h, Inr [])"
| "rescale_group env self scale livetime_s xform_flavints flav_names (t # rest) aeff h =
     (case input_names t of
        [] \<Rightarrow> (h, Inl IndexError)
      | first # _ \<Rightarrow>
          if first \<in> set flav_names \<and> contains env xform_flavints (output_name t)
          then
            let (a, h') = (case aeff of
                             Some a \<Rightarrow> (a, h)
                           | None \<Rightarrow> first_match_array self scale livetime_s t h);
                new_xform = \<lparr>input_names = input_names t,
                             output_name = output_name t,
                             input_binning = input_binning t,
                             output_binning = output_binning t,
                             xform_array = a,
                             sum_inputs = sum_grouped_flavints self\<rparr>
            in (case rescale_group env self scale livetime_s xform_flavints flav_names rest
                       (Some a) h' of
                  (h2, Inl e) \<Rightarrow> (h2, Inl e)
                | (h2, Inr ts) \<Rightarrow> (h2, Inr (new_xform # ts)))
          else rescale_group env self scale livetime_s xform_flavints flav_names rest aeff h)"

text \<open>
  The outer loop over the groups. \<open>xform_flavints[0]\<close> raises on an empty group; its value
  is not used.
\<close>

fun rescale_groups ::
  "('k, 'src, 'e) env \<Rightarrow> ('k, 'src, 'e) stage \<Rightarrow> real \<Rightarrow> real \<Rightarrow> 'k list list \<Rightarrow> heap \<Rightarrow>
     heap \<times> (error + transform list)" where
  "rescale_groups env self scale livetime_s [] h = (h, Inr [])"
| "rescale_groups env self scale livetime_s (xform_flavints # rest) h =
     (case xform_flavints of
        [] \<Rightarrow> (h, Inl IndexError)
      | repr_flav_int # _ \<Rightarrow>
          (case rescale_group env self scale livetime_s xform_flavints
                  (flavs env xform_flavints) (nominal_transforms self) None h of
             (h1, Inl e) \<Rightarrow> (h1, Inl e)
           | (h1, Inr ts) \<Rightarrow>
               (case rescale_groups env self scale livetime_s rest h1 of
                  (h2, Inl e) \<Rightarrow> (h2, Inl e)
                | (h2, Inr ts') \<Rightarrow> (h2, Inr (ts @ ts')))))"

definition compute_transforms ::
  "('k, 'src, 'e) env \<Rightarrow> ('k, 'src, 'e) stage \<Rightarrow> heap \<Rightarrow> heap \<times> (error + transform list)" where
  "compute_transforms env self h =
     (let scale = m_as env (aeff_scale (params self)) ''dimensionless'';
          livetime_s = m_as env (livetime (params self)) ''sec''
      in rescale_groups env self scale livetime_s (transform_groups self) h)"

text \<open>
  Modelled from the spec: the base class \<open>Stage\<close> is not part of this stage. The spec says
  that it calls the nominal computation for a new event source and binning, keeps the
  result as the nominal cache, and calls the rescaling on every change of a parameter. This
  is the first such run: the nominal computation, its result stored in
  \<open>nominal_transforms\<close>, then the rescaling.
\<close>

definition first_run ::
  "('k, 'src, 'e) env \<Rightarrow> ('k, 'src, 'e) stage \<Rightarrow> heap \<Rightarrow>
     ('k, 'src, 'e) stage \<times> heap \<times> (error + transform list)" where
  "first_run env self h =
     (case compute_nominal_transforms env self h of
        (self1, h1, Inl e) \<Rightarrow> (self1, h1, Inl e)
      | (self1, h1, Inr nominal) \<Rightarrow>
          (case compute_transforms env (self1\<lparr>nominal_transforms := nominal\<rparr>) h1 of
             (h2, r) \<Rightarrow> (self1\<lparr>nominal_transforms := nominal\<rparr>, h2, r)))"

subsection \<open>Construction\<close>

text \<open>\<open>s.split(sep)\<close> and \<open>s.replace(' ', '')\<close> of Python strings.\<close>

fun split :: "char \<Rightarrow> string \<Rightarrow> string list" where
  "split sep [] = [[]]"
| "split sep (c # cs) =
     (if c = sep then [] # split sep cs
      else (case split sep cs of
              [] \<Rightarrow> [[c]]
            | w # ws \<Rightarrow> (c # w) # ws))"

definition remove_spaces :: "string \<Rightarrow> string" where
  "remove_spaces s = filter (\<lambda>c. c \<noteq> CHR '' '') s"

definition default_input_names :: "string list" where
  "default_input_names = [''nue'', ''nuebar'', ''numu'', ''numubar'', ''nutau'', ''nutaubar'']"

text \<open>
  \<open>__init__\<close>, up to the call of the constructor of the base class, which is taken to
  store its arguments. The argument \<open>input_names\<close> is \<open>None\<close>, a string or a sequence of
  strings. For particles other than neutrinos the source assigns neither a default to
  \<open>input_names\<close> nor anything to the local variable \<open>output_names\<close>, and then reads
  \<open>output_names\<close> for the log message: the branches of the source on \<open>particles\<close> are
  joined into one here.
\<close>

definition init ::
  "('k, 'src, 'e) env \<Rightarrow> 'src param_set \<Rightarrow> string \<Rightarrow> string \<Rightarrow> bool \<Rightarrow> MultiDimBinning \<Rightarrow>
     MultiDimBinning \<Rightarrow> names_arg option \<Rightarrow> string option \<Rightarrow> error + ('k, 'src, 'e) stage" where
  "init env ps particles_arg groups_arg sum_arg ib ob input_names_arg error_method_arg =
     (if particles_arg \<notin> set [''neutrinos'', ''muons''] then Inl AssertionError
      else case flavintGroupsFromString env groups_arg of
        Inl e \<Rightarrow> Inl e
      | Inr groups \<Rightarrow>
          if particles_arg = ''neutrinos''
          then
            let ins = (case input_names_arg of
                         Some (Str s) \<Rightarrow> split CHR '','' (remove_spaces s)
                       | Some (Seq xs) \<Rightarrow> xs
                       | None \<Rightarrow> default_input_names);
                outs = (if sum_arg then map (str_group env) groups
                        else map (str_flavint env) (NuFlavIntGroup env (Seq ins)))
            in Inr \<lparr>events_hash = None,
                    events = None,
                    particles = particles_arg,
                    transform_groups = groups,
                    sum_grouped_flavints = sum_arg,
                    params = ps,
                    stage_input_names = ins,
                    stage_output_names = outs,
                    stage_input_binning = ib,
                    stage_output_binning = ob,
                    error_method = error_method_arg,
                    nominal_transforms = []\<rparr>
          else Inl UnboundLocalError)"

subsection \<open>An instance of the collaborators\<close>

text \<open>
  The theorems below hold for every behaviour of the collaborators. To run the model on
  concrete inputs, this instance follows PISA's conventions on the names used in
  \<open>hist.py\<close> itself: the twelve flavour/interaction types, a flavour name such as
  \<open>nutau\<close> standing for both of its interaction types, \<open>+\<close> joining the members of
  a group, and \<open>name in group\<close> holding when all the types the name stands for are in the
  group. The grouping string lists the groups, separated by commas; the types it leaves
  out become groups of their own. The event source is a pair of a content hash and a
  weight; the histogram has one bin for each pair of neighbouring edges on every axis, and
  the weight in every bin. The volume of a bin is the product of its widths. Edges in TeV
  are converted to GeV; quantities are read in their own units.
\<close>

datatype flavint =
    nue_cc | nue_nc | nuebar_cc | nuebar_nc
  | numu_cc | numu_nc | numubar_cc | numubar_nc
  | nutau_cc | nutau_nc | nutaubar_cc | nutaubar_nc

definition ALL_NUFLAVINTS :: "flavint list" where
  "ALL_NUFLAVINTS =
     [nue_cc, nue_nc, nuebar_cc, nuebar_nc, numu_cc, numu_nc, numubar_cc, numubar_nc,
      nutau_cc, nutau_nc, nutaubar_cc, nutaubar_nc]"

fun flavint_str :: "flavint \<Rightarrow> string" where
  "flavint_str nue_cc = ''nue_cc''"
| "flavint_str nue_nc = ''nue_nc''"
| "flavint_str nuebar_cc = ''nuebar_cc''"
| "flavint_str nuebar_nc = ''nuebar_nc''"
| "flavint_str numu_cc = ''numu_cc''"
| "flavint_str numu_nc = ''numu_nc''"
| "flavint_str numubar_cc = ''numubar_cc''"
| "flavint_str numubar_nc = ''numubar_nc''"
| "flavint_str nutau_cc = ''nutau_cc''"
| "flavint_str nutau_nc = ''nutau_nc''"
| "flavint_str nutaubar_cc = ''nutaubar_cc''"
| "flavint_str nutaubar_nc = ''nutaubar_nc''"

fun flav_str :: "flavint \<Rightarrow> string" where
  "flav_str nue_cc = ''nue''"
| "flav_str nue_nc = ''nue''"
| "flav_str nuebar_cc = ''nuebar''"
| "flav_str nuebar_nc = ''nuebar''"
| "flav_str numu_cc = ''numu''"
| "flav_str numu_nc = ''numu''"
| "flav_str numubar_cc = ''numubar''"
| "flav_str numubar_nc = ''numubar''"
| "flav_str nutau_cc = ''nutau''"
| "flav_str nutau_nc = ''nutau''"
| "flav_str nutaubar_cc = ''nutaubar''"
| "flav_str nutaubar_nc = ''nutaubar''"

definition parse_token :: "string \<Rightarrow> flavint list" where
  "parse_token s =
     filter (\<lambda>k. flavint_str k = s \<or> flav_str k = s) ALL_NUFLAVINTS"

definition parse_group :: "string \<Rightarrow> flavint list" where
  "parse_group s = remdups (concat (map parse_token (split CHR ''+'' (remove_spaces s))))"

fun join :: "string \<Rightarrow> string list \<Rightarrow> string" where
  "join sep [] = []"
| "join sep [w] = w"
| "join sep (w # ws) = w @ sep @ join sep ws"

definition bins :: "real list \<Rightarrow> nat" where
  "bins edges = length edges - 1"

definition volumes :: "MultiDimBinning \<Rightarrow> real ndarray" where
  "volumes b =
     \<lparr>shape = map (\<lambda>d. bins (bin_edges d)) b,
      item = (\<lambda>idx. prod_list (map2 (\<lambda>d j. bin_edges d ! Suc j - bin_edges d ! j) b idx))\<rparr>"

definition pisa :: "(flavint, nat \<times> real, real) env" where
  "pisa =
     \<lparr>hash_obj = fst,
      Events = snd,
      histogram = (\<lambda>evts kinds binning binning_cols weights_col errors.
                     \<lparr>shape = map bins binning, item = (\<lambda>idx. Finite evts)\<rparr>),
      bin_volumes = volumes,
      convert = (\<lambda>from_units to_units x.
                   if from_units = Some ''TeV'' \<and> to_units = Some ''GeV'' then 1000 * x else x),
      m_as = (\<lambda>q u. magnitude q),
      flavintGroupsFromString =
        (\<lambda>s. let grouped = map parse_group (split CHR '','' s)
              in if [] \<in> set grouped then Inl (ValueError ''Invalid flavint group'' [s])
                 else Inr (grouped @ map (\<lambda>k. [k])
                             (filter (\<lambda>k. k \<notin> set (concat grouped)) ALL_NUFLAVINTS))),
      NuFlavIntGroup =
        (\<lambda>arg. case arg of Str s \<Rightarrow> parse_group s
                         | Seq xs \<Rightarrow> remdups (concat (map parse_group xs))),
      str_group = (\<lambda>g. join ''+'' (map flavint_str g)),
      str_flavint = flavint_str,
      contains = (\<lambda>g name. set (parse_group name) \<subseteq> set g),
      flavs = (\<lambda>g. remdups (map flav_str g))\<rparr>"

subsection \<open>Example inputs\<close>

text \<open>
  Binnings of one bin per dimension, a parameter set (an event file with hash 1 whose
  weights fill every bin with 36; a live time of 5 s, a scale of 3, a tau normalisation
  of 7), and stages as the constructor builds them. \<open>tau_stage\<close> is unmerged, for the
  grouping string \<open>nutau\<close> and the input name \<open>nutau\<close>; \<open>twice_stage\<close> is the same with the
  input names \<open>nutau,nutau\<close>. \<open>nested_stage\<close> is merged, for the grouping string
  \<open>nue_cc+nuebar_cc,nue_cc\<close> and the input names \<open>nue\<close> and \<open>nuebar\<close>: its second group lies
  inside its first. \<open>cc_stage\<close> is unmerged, for the grouping string \<open>nue_cc\<close> and the input
  name \<open>nue_cc\<close>.
\<close>

definition energy_binning :: MultiDimBinning where
  "energy_binning = [\<lparr>dim_name = ''true_energy'', dim_units = Some ''GeV'', bin_edges = [1, 10]\<rparr>]"

definition full_binning :: MultiDimBinning where
  "full_binning = [\<lparr>dim_name = ''true_energy'', dim_units = Some ''GeV'', bin_edges = [1, 10]\<rparr>,
                   \<lparr>dim_name = ''true_coszen'', dim_units = None, bin_edges = [-1, 1]\<rparr>,
                   \<lparr>dim_name = ''true_azimuth'', dim_units = Some ''rad'', bin_edges = [0, 1]\<rparr>]"

definition foo_binning :: MultiDimBinning where
  "foo_binning = [\<lparr>dim_name = ''true_energy'', dim_units = Some ''GeV'', bin_edges = [1, 10]\<rparr>,
                  \<lparr>dim_name = ''true_foo'', dim_units = None, bin_edges = [0, 1]\<rparr>]"

definition tev_binning :: MultiDimBinning where
  "tev_binning =
     [\<lparr>dim_name = ''true_energy'', dim_units = Some ''TeV'', bin_edges = [1 / 1000, 1 / 100]\<rparr>]"

definition foo_only_binning :: MultiDimBinning where
  "foo_only_binning = [\<lparr>dim_name = ''true_foo'', dim_units = None, bin_edges = [0, 1]\<rparr>]"

definition coszen_binning :: MultiDimBinning where
  "coszen_binning = [\<lparr>dim_name = ''true_coszen'', dim_units = None, bin_edges = [-1, 1]\<rparr>]"

definition example_params :: "(nat \<times> real) param_set" where
  "example_params =
     \<lparr>aeff_weight_file = (1, 36),
      livetime = \<lparr>magnitude = 5, q_units = ''s''\<rparr>,
      aeff_scale = \<lparr>magnitude = 3, q_units = ''dimensionless''\<rparr>,
      nutau_cc_norm = \<lparr>magnitude = 7, q_units = ''dimensionless''\<rparr>\<rparr>"

definition tau_stage :: "MultiDimBinning \<Rightarrow> (flavint, nat \<times> real, real) stage" where
  "tau_stage ib =
     \<lparr>events_hash = None, events = None, particles = ''neutrinos'',
      transform_groups =
        [[nutau_cc, nutau_nc], [nue_cc], [nue_nc], [nuebar_cc], [nuebar_nc], [numu_cc],
         [numu_nc], [numubar_cc], [numubar_nc], [nutaubar_cc], [nutaubar_nc]],
      sum_grouped_flavints = False,
      params = example_params,
      stage_input_names = [''nutau''],
      stage_output_names = [''nutau_cc'', ''nutau_nc''],
      stage_input_binning = ib, stage_output_binning = ib,
      error_method = None, nominal_transforms = []\<rparr>"

definition twice_stage :: "MultiDimBinning \<Rightarrow> (flavint, nat \<times> real, real) stage" where
  "twice_stage ib = (tau_stage ib)\<lparr>stage_input_names := [''nutau'', ''nutau'']\<rparr>"

definition cc_stage :: "MultiDimBinning \<Rightarrow> (flavint, nat \<times> real, real) stage" where
  "cc_stage ib =
     \<lparr>events_hash = None, events = None, particles = ''neutrinos'',
      transform_groups =
        [[nue_cc], [nue_nc], [nuebar_cc], [nuebar_nc], [numu_cc], [numu_nc], [numubar_cc],
         [numubar_nc], [nutau_cc], [nutau_nc], [nutaubar_cc], [nutaubar_nc]],
      sum_grouped_flavints = False,
      params = example_params,
      stage_input_names = [''nue_cc''],
      stage_output_names = [''nue_cc''],
      stage_input_binning = ib, stage_output_binning = ib,
      error_method = None, nominal_transforms = []\<rparr>"

definition nested_stage :: "MultiDimBinning \<Rightarrow> (flavint, nat \<times> real, real) stage" where
  "nested_stage ib =
     \<lparr>events_hash = None, events = None, particles = ''neutrinos'',
      transform_groups =
        [[nue_cc, nuebar_cc], [nue_cc], [nue_nc], [nuebar_nc], [numu_cc], [numu_nc],
         [numubar_cc], [numubar_nc], [nutau_cc], [nutau_nc], [nutaubar_cc], [nutaubar_nc]],
      sum_grouped_flavints = True,
      params = example_params,
      stage_input_names = [''nue'', ''nuebar''],
      stage_output_names =
        [''nue_cc+nuebar_cc'', ''nue_cc'', ''nue_nc'', ''nuebar_nc'', ''numu_cc'', ''numu_nc'',
         ''numubar_cc'', ''numubar_nc'', ''nutau_cc'', ''nutau_nc'', ''nutaubar_cc'',
         ''nutaubar_nc''],
      stage_input_binning = ib, stage_output_binning = ib,
      error_method = None, nominal_transforms = []\<rparr>"

text \<open>
  The unmerged example stage on the binning of all three dimensions, after its nominal
  computation on an empty store: the two nominal transforms share the array at address 0,
  the stage keeps them as its nominal cache, and the store holds the eleven arrays of the
  eleven groups.
\<close>

definition tau_nominal :: "transform list" where
  "tau_nominal =
     [\<lparr>input_names = [''nutau''], output_name = ''nutau_cc'',
       input_binning = full_binning, output_binning = full_binning,
       xform_array = 0, sum_inputs = False\<rparr>,
      \<lparr>input_names = [''nutau''], output_name = ''nutau_nc'',
       input_binning = full_binning, output_binning = full_binning,
       xform_array = 0, sum_inputs = False\<rparr>]"

definition tau_cached :: "(flavint, nat \<times> real, real) stage" where
  "tau_cached = (load_events pisa (tau_stage full_binning))\<lparr>nominal_transforms := tau_nominal\<rparr>"

definition tau_heap :: heap where
  "tau_heap = fst (snd (compute_nominal_transforms pisa (tau_stage full_binning) []))"

subsection \<open>Words of the specification\<close>

text \<open>
  The categories of an input name intersect a group: the test of both modes of the
  assembler, under a name.
\<close>

definition meets :: "('k, 'src, 'e) env \<Rightarrow> 'k list \<Rightarrow> string \<Rightarrow> bool" where
  "meets env g name = (set g \<inter> set (NuFlavIntGroup env (Str name)) \<noteq> {})"

text \<open>
  A nominal transform matches a group in the rescaling: its first input name is one of
  the flavour names of the group and its output name is contained in the group.
\<close>

definition matches :: "('k, 'src, 'e) env \<Rightarrow> 'k list \<Rightarrow> transform \<Rightarrow> bool" where
  "matches env g t =
     (case input_names t of
        [] \<Rightarrow> False
      | first # _ \<Rightarrow> first \<in> set (flavs env g) \<and> contains env g (output_name t))"

text \<open>
  The effective area of the specification, element by element: the element of the raw
  histogram divided by the volume of its bin times the factor for the missing dimensions.
  The bin of an element is the bin of the same index; on an axis where the volumes have one
  bin only, it is that bin.
\<close>

definition effective_area :: "np_float ndarray \<Rightarrow> real ndarray \<Rightarrow> real \<Rightarrow> nat list \<Rightarrow> np_float" where
  "effective_area hist vols mdv idx =
     fdiv (item hist idx) (item vols (bcast_index (shape vols) idx) * mdv)"

text \<open>
  The transforms of a list of groups when the array of the first group is at address \<open>a\<close>
  and the arrays of the following groups at the following addresses.
\<close>

fun nominal_of ::
  "('k, 'src, 'e) env \<Rightarrow> ('k, 'src, 'e) stage \<Rightarrow> 'k list list \<Rightarrow> nat \<Rightarrow> transform list" where
  "nominal_of env self [] a = []"
| "nominal_of env self (g # gs) a =
     group_transforms env self g a @ nominal_of env self gs (Suc a)"

text \<open>
  The rescaled array of the specification, for a transform with output name \<open>out\<close> and
  nominal array \<open>arr\<close>: the nominal array times the product of the scale and the live
  time in seconds, and times the tau normalisation as well when the output name is one of
  the two tau charged-current channels.
\<close>

definition rescaled ::
  "('k, 'src, 'e) stage \<Rightarrow> real \<Rightarrow> real \<Rightarrow> string \<Rightarrow> np_float ndarray \<Rightarrow> np_float ndarray" where
  "rescaled self scale livetime_s out arr =
     (if out \<in> {''nutau_cc'', ''nutaubar_cc''}
      then times_scalar (times_scalar arr (scale * livetime_s))
             (magnitude (nutau_cc_norm (params self)))
      else times_scalar arr (scale * livetime_s))"

text \<open>
  Two transforms have the same structure: the same input names, output name and binnings.
\<close>

definition same_structure :: "transform \<Rightarrow> transform \<Rightarrow> bool" where
  "same_structure T' T \<longleftrightarrow>
     input_names T' = input_names T \<and> output_name T' = output_name T \<and>
     input_binning T' = input_binning T \<and> output_binning T' = output_binning T"

section \<open>Properties\<close>

subsection \<open>Loading the events\<close>

lemma load_events_binning [simp]:
  "stage_input_binning (load_events env self) = stage_input_binning self"
  "stage_output_binning (load_events env self) = stage_output_binning self"
  by (simp_all add: load_events_def Let_def)

lemma load_events_histogram [simp]:
  "load_events (env\<lparr>histogram := hf\<rparr>) self = load_events env self"
  by (simp add: load_events_def Let_def)

lemma load_events_changed:
  "Some (hash_obj env (aeff_weight_file (params self))) \<noteq> events_hash self \<Longrightarrow>
   events (load_events env self) = Some (Events env (aeff_weight_file (params self))) \<and>
   events_hash (load_events env self) = Some (hash_obj env (aeff_weight_file (params self)))"
  by (simp add: load_events_def Let_def)

text \<open>
  Claim C9. \<open>load_events\<close> compares the hash of the current \<open>aeff_weight_file\<close>
  with the stored hash. When they are equal the stage is returned as it is, events and
  hash included; when they differ the events are replaced by the newly loaded ones and the
  new hash is stored, and nothing else changes.
\<close>

theorem load_events_reloads_iff_hash_differs:
  "(Some (hash_obj env (aeff_weight_file (params self))) = events_hash self \<longrightarrow>
      load_events env self = self) \<and>
   (Some (hash_obj env (aeff_weight_file (params self))) \<noteq> events_hash self \<longrightarrow>
      load_events env self =
        self\<lparr>events := Some (Events env (aeff_weight_file (params self))),
             events_hash := Some (hash_obj env (aeff_weight_file (params self)))\<rparr>)"
  by (simp add: load_events_def Let_def)

text \<open>On the example stage: the first load stores the events and the hash 1, a second load changes nothing.\<close>

theorem load_events_reloads_iff_hash_differs_witness:
  "load_events pisa (load_events pisa (tau_stage energy_binning)) = load_events pisa (tau_stage energy_binning) \<and>
   events (load_events pisa (tau_stage energy_binning)) = Some 36 \<and>
   events_hash (load_events pisa (tau_stage energy_binning)) = Some 1"
  using load_events_reloads_iff_hash_differs [of pisa "tau_stage energy_binning"]
        load_events_reloads_iff_hash_differs [of pisa "load_events pisa (tau_stage energy_binning)"]
  by (simp add: tau_stage_def pisa_def example_params_def)

subsection \<open>The factor for missing dimensions\<close>

lemma in_binning_to: "in_binning n (binning_to env units b) = in_binning n b"
proof -
  have "map dim_name (binning_to env units b) = map dim_name b"
    by (induction b) (auto simp: binning_to_def split: option.splits)
  then show ?thesis by (simp add: in_binning_def names_def)
qed

text \<open>
  Claim C4. For every input binning the factor for the missing dimensions is the product
  of \<open>2 * np.pi\<close>, taken once exactly when \<open>true_azimuth\<close> is absent, and of 2, taken
  once exactly when \<open>true_coszen\<close> is absent: four times \<open>np.pi\<close> when both are absent, 1 when
  both are present. The conversion to the computational units does not change it, as it
  keeps the names of the dimensions.
\<close>

theorem missing_dims_vol_factors:
  "missing_dims_vol ib =
     (if in_binning ''true_azimuth'' ib then 1 else 2 * np_pi) *
     (if in_binning ''true_coszen'' ib then 1 else 2) \<and>
   (\<not> in_binning ''true_azimuth'' ib \<and> \<not> in_binning ''true_coszen'' ib \<longrightarrow>
      missing_dims_vol ib = 4 * np_pi) \<and>
   (in_binning ''true_azimuth'' ib \<and> in_binning ''true_coszen'' ib \<longrightarrow>
      missing_dims_vol ib = 1) \<and>
   missing_dims_vol (binning_to env units ib) = missing_dims_vol ib"
  by (simp add: missing_dims_vol_def Let_def in_binning_to)

text \<open>On the example binnings: energy only, all three dimensions, zenith only.\<close>

theorem missing_dims_vol_factors_witness:
  "missing_dims_vol energy_binning = 4 * np_pi \<and> missing_dims_vol full_binning = 1 \<and> missing_dims_vol coszen_binning = 2 * np_pi"
  using missing_dims_vol_factors [of energy_binning pisa comp_units]
        missing_dims_vol_factors [of full_binning pisa comp_units]
        missing_dims_vol_factors [of coszen_binning pisa comp_units]
  by (simp add: energy_binning_def full_binning_def coszen_binning_def in_binning_def names_def)

subsection \<open>Validation of the input binning\<close>

lemma set_excess_dims:
  "set (excess_dims b) = set (names b) - {''true_energy'', ''true_coszen'', ''true_azimuth''}"
  by (auto simp: excess_dims_def comp_units_def)

lemma excess_dims_empty:
  "excess_dims b = [] \<longleftrightarrow> set (names b) \<subseteq> {''true_energy'', ''true_coszen'', ''true_azimuth''}"
proof -
  have "excess_dims b = [] \<longleftrightarrow> set (excess_dims b) = {}" by simp
  then show ?thesis unfolding set_excess_dims by blast
qed

lemma nominal_missing_energy:
  "\<not> in_binning ''true_energy'' (stage_input_binning self) \<Longrightarrow>
   compute_nominal_transforms env self h =
     (load_events env self, h, Inl (ValueError missing_energy_msg []))"
  by (simp add: compute_nominal_transforms_def Let_def)

lemma nominal_extra_dims:
  "in_binning ''true_energy'' (stage_input_binning self) \<Longrightarrow>
   excess_dims (stage_input_binning self) \<noteq> [] \<Longrightarrow>
   compute_nominal_transforms env self h =
     (load_events env self, h,
      Inl (ValueError extra_dims_msg (sort (excess_dims (stage_input_binning self)))))"
  by (simp add: compute_nominal_transforms_def Let_def)

text \<open>
  Claim C6, as the code has it. The nominal computation raises a \<open>ValueError\<close> when the
  input binning has no dimension \<open>true_energy\<close>, and when it has a dimension other than
  \<open>true_energy\<close>, \<open>true_coszen\<close> and \<open>true_azimuth\<close>. The missing energy is tested first:
  its message names \<open>true_energy\<close> and nothing else, whatever other dimensions the binning
  has. The message of the second test, reached when the energy is present, lists the
  unrecognised names, each once, in sorted order. In both cases the store is returned as
  it was, no array having been allocated, and the result is the same whatever the
  histogram function of the events is: no histogram is built.
\<close>

theorem invalid_binning_raises_before_histogram:
  "(\<not> in_binning ''true_energy'' (stage_input_binning self) \<longrightarrow>
      compute_nominal_transforms env self h =
        (load_events env self, h, Inl (ValueError missing_energy_msg []))) \<and>
   (in_binning ''true_energy'' (stage_input_binning self) \<and>
    \<not> set (names (stage_input_binning self))
        \<subseteq> {''true_energy'', ''true_coszen'', ''true_azimuth''} \<longrightarrow>
      (\<exists>ds. compute_nominal_transforms env self h =
              (load_events env self, h, Inl (ValueError extra_dims_msg ds)) \<and>
            set ds = set (names (stage_input_binning self))
                       - {''true_energy'', ''true_coszen'', ''true_azimuth''} \<and>
            sorted ds \<and> distinct ds)) \<and>
   (\<not> in_binning ''true_energy'' (stage_input_binning self) \<or>
    \<not> set (names (stage_input_binning self))
        \<subseteq> {''true_energy'', ''true_coszen'', ''true_azimuth''} \<longrightarrow>
      compute_nominal_transforms (env\<lparr>histogram := hf\<rparr>) self h =
        compute_nominal_transforms env self h)"
proof (intro conjI impI)
  assume "\<not> in_binning ''true_energy'' (stage_input_binning self)"
  then show "compute_nominal_transforms env self h =
        (load_events env self, h, Inl (ValueError missing_energy_msg []))"
    by (rule nominal_missing_energy)
next
  assume a: "in_binning ''true_energy'' (stage_input_binning self) \<and>
    \<not> set (names (stage_input_binning self))
        \<subseteq> {''true_energy'', ''true_coszen'', ''true_azimuth''}"
  then have ne: "excess_dims (stage_input_binning self) \<noteq> []"
    by (simp add: excess_dims_empty)
  let ?ds = "sort (excess_dims (stage_input_binning self))"
  have "compute_nominal_transforms env self h =
          (load_events env self, h, Inl (ValueError extra_dims_msg ?ds))"
    using a ne by (simp add: nominal_extra_dims)
  moreover have "set ?ds = set (names (stage_input_binning self))
                       - {''true_energy'', ''true_coszen'', ''true_azimuth''}"
    by (simp add: set_excess_dims)
  moreover have "sorted ?ds" by simp
  moreover have "distinct ?ds" by (simp add: excess_dims_def)
  ultimately show "\<exists>ds. compute_nominal_transforms env self h =
              (load_events env self, h, Inl (ValueError extra_dims_msg ds)) \<and>
            set ds = set (names (stage_input_binning self))
                       - {''true_energy'', ''true_coszen'', ''true_azimuth''} \<and>
            sorted ds \<and> distinct ds"
    by blast
next
  assume a: "\<not> in_binning ''true_energy'' (stage_input_binning self) \<or>
    \<not> set (names (stage_input_binning self))
        \<subseteq> {''true_energy'', ''true_coszen'', ''true_azimuth''}"
  show "compute_nominal_transforms (env\<lparr>histogram := hf\<rparr>) self h =
        compute_nominal_transforms env self h"
  proof (cases "in_binning ''true_energy'' (stage_input_binning self)")
    case False
    then show ?thesis by (simp add: nominal_missing_energy)
  next
    case True
    with a have "excess_dims (stage_input_binning self) \<noteq> []"
      by (simp add: excess_dims_empty)
    with True show ?thesis by (simp add: nominal_extra_dims)
  qed
qed

text \<open>On a binning of the zenith only, and on one with a dimension \<open>true_foo\<close>.\<close>

theorem invalid_binning_raises_before_histogram_witness:
  "compute_nominal_transforms pisa (tau_stage coszen_binning) [] =
     (load_events pisa (tau_stage coszen_binning), [], Inl (ValueError missing_energy_msg [])) \<and>
   compute_nominal_transforms pisa (tau_stage foo_binning) [] =
     (load_events pisa (tau_stage foo_binning), [], Inl (ValueError extra_dims_msg [''true_foo''])) \<and>
   compute_nominal_transforms (pisa\<lparr>histogram := (\<lambda>e k b c w r. \<lparr>shape = [], item = (\<lambda>idx. NotFinite)\<rparr>)\<rparr>) (tau_stage foo_binning) [] =
     compute_nominal_transforms pisa (tau_stage foo_binning) []"
proof -
  have s: "stage_input_binning (tau_stage b) = b" for b by (simp add: tau_stage_def)
  have 1: "\<not> in_binning ''true_energy'' coszen_binning"
    by (simp add: in_binning_def names_def coszen_binning_def)
  have 2: "in_binning ''true_energy'' foo_binning \<and>
          \<not> set (names foo_binning) \<subseteq> {''true_energy'', ''true_coszen'', ''true_azimuth''}"
    by (simp add: in_binning_def names_def foo_binning_def)
  have 3: "set (names foo_binning) - {''true_energy'', ''true_coszen'', ''true_azimuth''} = {''true_foo''}"
    by (auto simp add: names_def foo_binning_def)
  have 4: "set ds = {x} \<and> distinct ds \<Longrightarrow> ds = [x]" for ds :: "string list" and x
    by (cases ds) (auto simp: subset_singleton_iff)
  from invalid_binning_raises_before_histogram [of "tau_stage coszen_binning" pisa "[]"]
       invalid_binning_raises_before_histogram [of "tau_stage foo_binning" pisa "[]"
         "\<lambda>e k b c w r. \<lparr>shape = [], item = (\<lambda>idx. NotFinite)\<rparr>"]
  show ?thesis
    unfolding s 3 using 1 2 4 by auto
qed

text \<open>
  A binning of the one dimension \<open>true_foo\<close> has an unrecognised dimension, and the error
  does not list it: the energy is missing too, and that is what the message says.
\<close>

theorem unrecognised_name_not_listed_without_energy:
  "names foo_only_binning = [''true_foo''] \<and>
   snd (snd (compute_nominal_transforms pisa (tau_stage foo_only_binning) [])) =
     Inl (ValueError missing_energy_msg [])"
  by (simp add: compute_nominal_transforms_def Let_def in_binning_def names_def
        foo_only_binning_def tau_stage_def)

text \<open>
  Claim C10. In the nominal computation the events are loaded before the input binning is
  validated. On an invalid input binning the computation fails, and the stage it leaves
  behind is the one \<open>load_events\<close> produced: when the hash of the event file differs from
  the stored one, the events and the hash of the stage have been replaced although the
  computation raised.
\<close>

theorem events_loaded_before_validation:
  assumes "\<not> in_binning ''true_energy'' (stage_input_binning self) \<or>
           \<not> set (names (stage_input_binning self))
               \<subseteq> {''true_energy'', ''true_coszen'', ''true_azimuth''}"
  shows "(\<exists>e. compute_nominal_transforms env self h = (load_events env self, h, Inl e)) \<and>
         (Some (hash_obj env (aeff_weight_file (params self))) \<noteq> events_hash self \<longrightarrow>
            events (fst (compute_nominal_transforms env self h))
              = Some (Events env (aeff_weight_file (params self))) \<and>
            events_hash (fst (compute_nominal_transforms env self h))
              = Some (hash_obj env (aeff_weight_file (params self))))"
proof -
  have r: "\<exists>e. compute_nominal_transforms env self h = (load_events env self, h, Inl e)"
  proof (cases "in_binning ''true_energy'' (stage_input_binning self)")
    case False
    then show ?thesis by (simp add: nominal_missing_energy)
  next
    case True
    with assms have "excess_dims (stage_input_binning self) \<noteq> []"
      by (simp add: excess_dims_empty)
    with True show ?thesis by (simp add: nominal_extra_dims)
  qed
  then have "fst (compute_nominal_transforms env self h) = load_events env self"
    by auto
  with r show ?thesis by (simp add: load_events_changed)
qed

text \<open>On the example stage with the dimension \<open>true_foo\<close>: nothing loaded before, hash 1 and events after.\<close>

theorem events_loaded_before_validation_witness:
  "events_hash (tau_stage foo_binning) = None \<and>
   events (tau_stage foo_binning) = None \<and>
   events_hash (fst (compute_nominal_transforms pisa (tau_stage foo_binning) [])) = Some 1 \<and>
   events (fst (compute_nominal_transforms pisa (tau_stage foo_binning) [])) = Some 36 \<and>
   (\<exists>e. snd (snd (compute_nominal_transforms pisa (tau_stage foo_binning) [])) = Inl e)"
proof -
  have a: "\<not> in_binning ''true_energy'' (stage_input_binning (tau_stage foo_binning)) \<or>
           \<not> set (names (stage_input_binning (tau_stage foo_binning)))
               \<subseteq> {''true_energy'', ''true_coszen'', ''true_azimuth''}"
    by (simp add: tau_stage_def foo_binning_def names_def)
  have b: "Some (hash_obj pisa (aeff_weight_file (params (tau_stage foo_binning))))
             \<noteq> events_hash (tau_stage foo_binning)"
    by (simp add: tau_stage_def)
  from events_loaded_before_validation [OF a, of pisa "[]"] b
  show ?thesis
    by (auto simp: tau_stage_def pisa_def example_params_def)
qed

subsection \<open>Construction\<close>

text \<open>
  Claim C7. Construction fails when \<open>particles\<close> is neither \<open>neutrinos\<close> nor \<open>muons\<close>:
  the assertion on the first lines fails. It fails for \<open>muons\<close> too: unless the grouping
  string is rejected first, the local variable \<open>output_names\<close> is read without having been
  assigned. Both happen before the constructor of the base class is called, and no stage
  is built for any value of \<open>particles\<close> other than \<open>neutrinos\<close>.
\<close>

theorem init_rejects_other_particles:
  "(particles_arg \<notin> {''neutrinos'', ''muons''} \<longrightarrow>
      init env ps particles_arg groups_arg sum_arg ib ob input_names_arg error_method_arg
        = Inl AssertionError) \<and>
   (particles_arg = ''muons'' \<longrightarrow>
      init env ps particles_arg groups_arg sum_arg ib ob input_names_arg error_method_arg
        = (case flavintGroupsFromString env groups_arg of
             Inl e \<Rightarrow> Inl e
           | Inr groups \<Rightarrow> Inl UnboundLocalError)) \<and>
   (particles_arg \<noteq> ''neutrinos'' \<longrightarrow>
      (\<exists>e. init env ps particles_arg groups_arg sum_arg ib ob input_names_arg error_method_arg
             = Inl e))"
  by (auto simp: init_def split: sum.splits)

text \<open>On \<open>electrons\<close> and on \<open>muons\<close>.\<close>

theorem init_rejects_other_particles_witness:
  "init pisa example_params ''electrons'' ''nutau'' False full_binning full_binning None None
     = Inl AssertionError \<and>
   init pisa example_params ''muons'' ''nutau'' False full_binning full_binning None None
     = Inl UnboundLocalError"
proof -
  have "parse_group ''nutau'' = [nutau_cc, nutau_nc]"
    by (simp add: parse_group_def parse_token_def remove_spaces_def ALL_NUFLAVINTS_def)
  then have g: "\<exists>gs. flavintGroupsFromString pisa ''nutau'' = Inr gs"
    by (simp add: pisa_def Let_def)
  from init_rejects_other_particles [of "''electrons''" pisa example_params "''nutau''" False
         full_binning full_binning None None]
       init_rejects_other_particles [of "''muons''" pisa example_params "''nutau''" False
         full_binning full_binning None None] g
  show ?thesis by auto
qed

text \<open>The example stages are what the constructor builds.\<close>

lemma init_tau_stage:
  "init pisa example_params ''neutrinos'' ''nutau'' False b b (Some (Str ''nutau'')) None = Inr (tau_stage b)"
  by code_simp

lemma init_twice_stage:
  "init pisa example_params ''neutrinos'' ''nutau'' False b b (Some (Str ''nutau,nutau'')) None = Inr (twice_stage b)"
  by code_simp

lemma init_cc_stage:
  "init pisa example_params ''neutrinos'' ''nue_cc'' False b b (Some (Str ''nue_cc'')) None = Inr (cc_stage b)"
  by code_simp

lemma init_nested_stage:
  "init pisa example_params ''neutrinos'' ''nue_cc+nuebar_cc,nue_cc'' True b b (Some (Str ''nue, nuebar'')) None = Inr (nested_stage b)"
  by code_simp

subsection \<open>The assembler of the nominal transforms\<close>

text \<open>The loops of the two modes, in closed form.\<close>

lemma xform_input_names_filter:
  "xform_input_names env g ins = filter (meets env g) ins"
  by (induction ins) (simp_all add: meets_def)

lemma sum_outputs_map:
  "sum_outputs env self g xin a outs =
     map (\<lambda>out. \<lparr>input_names = xin, output_name = out,
                  input_binning = stage_input_binning self,
                  output_binning = stage_output_binning self,
                  xform_array = a, sum_inputs = sum_grouped_flavints self\<rparr>)
         (filter (contains env g) outs)"
  by (induction outs) simp_all

lemma split_outputs_map:
  "split_outputs env self g i a outs =
     map (\<lambda>out. \<lparr>input_names = [i], output_name = out,
                  input_binning = stage_input_binning self,
                  output_binning = stage_output_binning self,
                  xform_array = a, sum_inputs = sum_grouped_flavints self\<rparr>)
         (filter (contains env g) outs)"
  by (induction outs) simp_all

lemma split_inputs_concat:
  "split_inputs env self g a ins =
     concat (map (\<lambda>i. split_outputs env self g i a (stage_output_names self))
                 (filter (meets env g) ins))"
  by (induction ins) (simp_all add: meets_def)

lemma distinct_count_list:
  "distinct xs \<Longrightarrow> count_list xs x = (if x \<in> set xs then 1 else 0)"
  by (induction xs) auto

lemma count_split_outputs:
  "length (filter (\<lambda>T. input_names T = [i] \<and> output_name T = out)
             (split_outputs env self g i' a outs)) =
     (if i' = i \<and> contains env g out then count_list outs out else 0)"
  by (induction outs) auto

lemma split_inputs_Cons:
  "split_inputs env self g a (i # ins) =
     (if meets env g i
      then split_outputs env self g i a (stage_output_names self) @ split_inputs env self g a ins
      else split_inputs env self g a ins)"
  by (simp add: meets_def)

lemma count_split_inputs:
  "length (filter (\<lambda>T. input_names T = [i] \<and> output_name T = out)
             (split_inputs env self g a ins)) =
     (if meets env g i \<and> contains env g out
      then count_list ins i * count_list (stage_output_names self) out else 0)"
proof (induction ins)
  case Nil
  show ?case by simp
next
  case (Cons i' ins)
  show ?case
    unfolding split_inputs_Cons
    using Cons.IH by (simp add: count_split_outputs del: length_0_conv)
qed

text \<open>
  Merged mode in closed form: for a group, one transform for each declared output name
  that is contained in the group, in the order of the declared output names, each with the
  declared input names that meet the group, the array of the group and the summing flag
  set.
\<close>

lemma merged_group_transforms:
  assumes "sum_grouped_flavints self"
  shows "group_transforms env self g a =
           map (\<lambda>out. \<lparr>input_names = filter (meets env g) (stage_input_names self),
                        output_name = out,
                        input_binning = stage_input_binning self,
                        output_binning = stage_output_binning self,
                        xform_array = a,
                        sum_inputs = True\<rparr>)
               (filter (contains env g) (stage_output_names self))"
  using assms
  by (simp add: group_transforms_def sum_outputs_map xform_input_names_filter)

text \<open>
  Claim C2 does not hold of the code. The comment of the source says that merged mode
  creates a single transform for each group, and the claim that its output name is the
  name of the group. The first group of the merged example stage is \<open>nue_cc+nuebar_cc\<close>;
  its array is at address 0. The nominal computation emits two transforms on that array,
  and the second is named \<open>nue_cc\<close>, after the second group, which lies inside the first:
  the test of the source is containment of the output name in the group.
\<close>

theorem merged_output_name_of_inner_group:
  "sum_grouped_flavints (nested_stage energy_binning) \<and>
   transform_groups (nested_stage energy_binning) ! 0 = [nue_cc, nuebar_cc] \<and>
   str_group pisa [nue_cc, nuebar_cc] = ''nue_cc+nuebar_cc'' \<and>
   map_sum id (map (\<lambda>T. (xform_array T, output_name T)))
     (snd (snd (compute_nominal_transforms pisa (nested_stage energy_binning) []))) =
     Inr [(0, ''nue_cc+nuebar_cc''), (0, ''nue_cc''), (1, ''nue_cc''), (2, ''nue_nc''),
          (3, ''nuebar_nc''), (4, ''numu_cc''), (5, ''numu_nc''), (6, ''numubar_cc''),
          (7, ''numubar_nc''), (8, ''nutau_cc''), (9, ''nutau_nc''), (10, ''nutaubar_cc''),
          (11, ''nutaubar_nc'')]"
  by code_simp

lemma group_transforms_split:
  "\<not> sum_grouped_flavints self \<Longrightarrow>
   group_transforms env self g a = split_inputs env self g a (stage_input_names self)"
  by (simp add: group_transforms_def)

lemma split_inputs_members:
  "T \<in> set (split_inputs env self g a ins) \<Longrightarrow>
   \<exists>i out. i \<in> set ins \<and> meets env g i \<and> out \<in> set (stage_output_names self) \<and>
           contains env g out \<and>
           T = \<lparr>input_names = [i], output_name = out,
                input_binning = stage_input_binning self,
                output_binning = stage_output_binning self,
                xform_array = a, sum_inputs = sum_grouped_flavints self\<rparr>"
  by (auto simp: split_inputs_concat split_outputs_map)

text \<open>
  Claim C3, as the code has it. In unmerged mode every transform the assembler emits for
  a group carries exactly one input name, whose categories intersect the group, and an
  output name that is contained in the group; it has the binnings of the stage, the one
  array of the group, and its summing flag is unset. The number of transforms emitted for
  a pair of an input name and an output name that pass the two tests is the number of
  times the input name is declared times the number of times the output name is declared:
  exactly one when the declared names are distinct. No transform is emitted for any other
  pair.
\<close>

theorem unmerged_group_transforms:
  assumes "\<not> sum_grouped_flavints self"
  shows "(\<forall>T \<in> set (group_transforms env self g a).
            \<exists>i out. i \<in> set (stage_input_names self) \<and> meets env g i \<and>
                    out \<in> set (stage_output_names self) \<and> contains env g out \<and>
                    input_names T = [i] \<and> output_name T = out \<and>
                    input_binning T = stage_input_binning self \<and>
                    output_binning T = stage_output_binning self \<and>
                    xform_array T = a \<and> \<not> sum_inputs T) \<and>
         (\<forall>i out. length (filter (\<lambda>T. input_names T = [i] \<and> output_name T = out)
                              (group_transforms env self g a)) =
                    (if meets env g i \<and> contains env g out
                     then count_list (stage_input_names self) i
                            * count_list (stage_output_names self) out
                     else 0)) \<and>
         (distinct (stage_input_names self) \<and> distinct (stage_output_names self) \<longrightarrow>
            (\<forall>i \<in> set (stage_input_names self). \<forall>out \<in> set (stage_output_names self).
               meets env g i \<and> contains env g out \<longrightarrow>
               length (filter (\<lambda>T. input_names T = [i] \<and> output_name T = out)
                         (group_transforms env self g a)) = 1))"
proof -
  have eq: "group_transforms env self g a = split_inputs env self g a (stage_input_names self)"
    using assms by (rule group_transforms_split)
  show ?thesis
  proof (intro conjI ballI allI impI)
  fix T assume "T \<in> set (group_transforms env self g a)"
  then have "T \<in> set (split_inputs env self g a (stage_input_names self))"
    by (simp add: eq)
  from split_inputs_members [OF this] assms
  show "\<exists>i out. i \<in> set (stage_input_names self) \<and> meets env g i \<and>
                    out \<in> set (stage_output_names self) \<and> contains env g out \<and>
                    input_names T = [i] \<and> output_name T = out \<and>
                    input_binning T = stage_input_binning self \<and>
                    output_binning T = stage_output_binning self \<and>
                    xform_array T = a \<and> \<not> sum_inputs T"
    by force
next
  fix i out
  show "length (filter (\<lambda>T. input_names T = [i] \<and> output_name T = out)
                              (group_transforms env self g a)) =
                    (if meets env g i \<and> contains env g out
                     then count_list (stage_input_names self) i
                            * count_list (stage_output_names self) out
                     else 0)"
    unfolding eq by (rule count_split_inputs)
next
  fix i out
  assume d: "distinct (stage_input_names self) \<and> distinct (stage_output_names self)"
    and i: "i \<in> set (stage_input_names self)" and o: "out \<in> set (stage_output_names self)"
    and m: "meets env g i \<and> contains env g out"
  have "length (filter (\<lambda>T. input_names T = [i] \<and> output_name T = out)
                 (group_transforms env self g a)) =
        count_list (stage_input_names self) i * count_list (stage_output_names self) out"
    unfolding eq count_split_inputs using m by simp
  also have "\<dots> = 1"
    using d i o by (simp add: distinct_count_list)
  finally show "length (filter (\<lambda>T. input_names T = [i] \<and> output_name T = out)
                         (group_transforms env self g a)) = 1" .
  qed
qed

text \<open>On the unmerged example stage and its group of the two tau-neutrino types.\<close>

theorem unmerged_group_transforms_witness:
  "group_transforms pisa (tau_stage energy_binning) [nutau_cc, nutau_nc] 0 =
     [\<lparr>input_names = [''nutau''], output_name = ''nutau_cc'',
       input_binning = energy_binning, output_binning = energy_binning,
       xform_array = 0, sum_inputs = False\<rparr>,
      \<lparr>input_names = [''nutau''], output_name = ''nutau_nc'',
       input_binning = energy_binning, output_binning = energy_binning,
       xform_array = 0, sum_inputs = False\<rparr>] \<and>
   length (filter (\<lambda>T. input_names T = [''nutau''] \<and> output_name T = ''nutau_nc'')
             (group_transforms pisa (tau_stage energy_binning) [nutau_cc, nutau_nc] 0)) = 1"
proof -
  have s: "\<not> sum_grouped_flavints (tau_stage energy_binning)"
    by (simp add: tau_stage_def)
  have d: "distinct (stage_input_names (tau_stage energy_binning)) \<and>
           distinct (stage_output_names (tau_stage energy_binning))"
    by (simp add: tau_stage_def)
  have m: "meets pisa [nutau_cc, nutau_nc] ''nutau'' \<and> contains pisa [nutau_cc, nutau_nc] ''nutau_nc''"
    by code_simp
  have i: "''nutau'' \<in> set (stage_input_names (tau_stage energy_binning))"
          "''nutau_nc'' \<in> set (stage_output_names (tau_stage energy_binning))"
    by (simp_all add: tau_stage_def)
  have e: "group_transforms pisa (tau_stage energy_binning) [nutau_cc, nutau_nc] 0 =
     [\<lparr>input_names = [''nutau''], output_name = ''nutau_cc'',
       input_binning = energy_binning, output_binning = energy_binning,
       xform_array = 0, sum_inputs = False\<rparr>,
      \<lparr>input_names = [''nutau''], output_name = ''nutau_nc'',
       input_binning = energy_binning, output_binning = energy_binning,
       xform_array = 0, sum_inputs = False\<rparr>]"
    by code_simp
  from unmerged_group_transforms [OF s, of pisa "[nutau_cc, nutau_nc]" 0] d m i
  have "length (filter (\<lambda>T. input_names T = [''nutau''] \<and> output_name T = ''nutau_nc'')
             (group_transforms pisa (tau_stage energy_binning) [nutau_cc, nutau_nc] 0)) = 1"
    by blast
  with e show ?thesis by simp
qed

text \<open>
  An input name declared twice gives two transforms for the same pair: for the input names
  \<open>nutau,nutau\<close> the group of the two tau-neutrino types has the pair of \<open>nutau\<close> and
  \<open>nutau_cc\<close> twice. Nothing in the source removes a repeated name.
\<close>

theorem repeated_input_name_repeats_pair:
  "stage_input_names (twice_stage energy_binning) = [''nutau'', ''nutau''] \<and>
   sum_grouped_flavints (twice_stage energy_binning) = False \<and>
   map (\<lambda>T. (input_names T, output_name T))
     (group_transforms pisa (twice_stage energy_binning) [nutau_cc, nutau_nc] 0) =
     [([''nutau''], ''nutau_cc''), ([''nutau''], ''nutau_nc''),
      ([''nutau''], ''nutau_cc''), ([''nutau''], ''nutau_nc'')]"
  by code_simp

subsection \<open>The nominal arrays\<close>

lemma idivide_Inr:
  "idivide a b = Inr d \<longleftrightarrow>
     broadcasts_to (shape b) (shape a) \<and>
     d = \<lparr>shape = shape a,
           item = (\<lambda>idx. fdiv (item a idx) (item b (bcast_index (shape b) idx)))\<rparr>"
  by (auto simp: idivide_def)

lemma idivide_volumes:
  "idivide hist (volumes_times vols mdv) =
     (if broadcasts_to (shape vols) (shape hist)
      then Inr \<lparr>shape = shape hist, item = effective_area hist vols mdv\<rparr>
      else Inl (ValueError broadcast_msg []))"
  by (auto simp: idivide_def volumes_times_def effective_area_def fun_eq_iff)

lemma bcast_index_same:
  "in_bounds idx s \<Longrightarrow> bcast_index s idx = idx"
proof -
  assume "in_bounds idx s"
  then have a: "list_all2 (<) idx s" by (simp add: in_bounds_def)
  then have l: "length idx = length s" by (rule list_all2_lengthD)
  from a have "map2 (\<lambda>b j. if b = 1 then 0 else j) s idx = idx"
    by (induction rule: list_all2_induct) auto
  with l show ?thesis by (simp add: bcast_index_def)
qed

lemma nominal_group_cases:
  "nominal_group env self ib edges mdv g h =
     (case events self of
        None \<Rightarrow> (h, Inl AttributeError)
      | Some evts \<Rightarrow>
          let hist = histogram env evts g edges (names (stage_input_binning self))
                       ''weighted_aeff'' (error_method self \<noteq> None)
          in if broadcasts_to (shape (bin_volumes env ib)) (shape hist)
             then (h @ [\<lparr>shape = shape hist,
                          item = effective_area hist (bin_volumes env ib) mdv\<rparr>],
                   Inr (group_transforms env self g (length h)))
             else (h @ [hist], Inl (ValueError broadcast_msg [])))"
  by (simp add: nominal_group_def alloc_def idivide_volumes Let_def split: option.splits)

lemma nominal_groups_Inr:
  assumes "nominal_groups env self ib edges mdv gs h = (h', Inr ts)"
  shows "(gs \<noteq> [] \<longrightarrow> events self \<noteq> None) \<and>
         (\<forall>evts. events self = Some evts \<longrightarrow>
            h' = h @ map (\<lambda>g. \<lparr>shape = shape (histogram env evts g edges
                                     (names (stage_input_binning self))
                                     ''weighted_aeff'' (error_method self \<noteq> None)),
                                item = effective_area
                                  (histogram env evts g edges (names (stage_input_binning self))
                                     ''weighted_aeff'' (error_method self \<noteq> None))
                                  (bin_volumes env ib) mdv\<rparr>) gs \<and>
            (\<forall>g \<in> set gs.
               broadcasts_to (shape (bin_volumes env ib))
                 (shape (histogram env evts g edges (names (stage_input_binning self))
                           ''weighted_aeff'' (error_method self \<noteq> None))))) \<and>
         ts = nominal_of env self gs (length h)"
  using assms
proof (induction gs arbitrary: h h' ts)
  case Nil
  then show ?case by simp
next
  case (Cons g gs)
  from Cons.prems obtain evts where ev: "events self = Some evts"
    by (cases "events self") (auto simp: nominal_group_cases)
  let ?hist = "histogram env evts g edges (names (stage_input_binning self))
                 ''weighted_aeff'' (error_method self \<noteq> None)"
  from Cons.prems ev have bc: "broadcasts_to (shape (bin_volumes env ib)) (shape ?hist)"
    by (auto simp: nominal_group_cases Let_def split: if_splits)
  let ?h1 = "h @ [\<lparr>shape = shape ?hist,
                    item = effective_area ?hist (bin_volumes env ib) mdv\<rparr>]"
  from ev bc have g1: "nominal_group env self ib edges mdv g h =
      (?h1, Inr (group_transforms env self g (length h)))"
    by (simp add: nominal_group_cases Let_def)
  from Cons.prems g1 obtain ts' where
    rest: "nominal_groups env self ib edges mdv gs ?h1 = (h', Inr ts')"
    and ts: "ts = group_transforms env self g (length h) @ ts'"
    by (auto split: prod.splits sum.splits)
  from Cons.IH [OF rest] ev ts bc show ?case by simp
qed

lemma nominal_groups_succeeds:
  assumes "events self = Some evts"
    and "\<forall>g \<in> set gs.
           broadcasts_to (shape (bin_volumes env ib))
             (shape (histogram env evts g edges (names (stage_input_binning self))
                       ''weighted_aeff'' (error_method self \<noteq> None)))"
  shows "nominal_groups env self ib edges mdv gs h =
           (h @ map (\<lambda>g. \<lparr>shape = shape (histogram env evts g edges
                                     (names (stage_input_binning self))
                                     ''weighted_aeff'' (error_method self \<noteq> None)),
                                item = effective_area
                                  (histogram env evts g edges (names (stage_input_binning self))
                                     ''weighted_aeff'' (error_method self \<noteq> None))
                                  (bin_volumes env ib) mdv\<rparr>) gs,
            Inr (nominal_of env self gs (length h)))"
  using assms
  by (induction gs arbitrary: h) (simp_all add: nominal_group_cases Let_def)

lemma group_transforms_array:
  "T \<in> set (group_transforms env self g a) \<Longrightarrow> xform_array T = a"
  by (auto simp: group_transforms_def sum_outputs_map split_inputs_concat split_outputs_map
           split: if_splits)

lemma nominal_of_members:
  "T \<in> set (nominal_of env self gs a) \<longleftrightarrow>
     (\<exists>i < length gs. T \<in> set (group_transforms env self (gs ! i) (a + i)))"
proof (induction gs arbitrary: a)
  case Nil
  show ?case by simp
next
  case (Cons g gs)
  have "(\<exists>i < length (g # gs). T \<in> set (group_transforms env self ((g # gs) ! i) (a + i))) \<longleftrightarrow>
        T \<in> set (group_transforms env self g a) \<or>
        (\<exists>i < length gs. T \<in> set (group_transforms env self (gs ! i) (Suc a + i)))"
    by (auto simp: less_Suc_eq_0_disj)
  with Cons.IH [of "Suc a"] show ?case by simp
qed

lemma group_transforms_load_events [simp]:
  "group_transforms env (load_events env' self) g a = group_transforms env self g a"
proof -
  have f: "sum_grouped_flavints (load_events env' self) = sum_grouped_flavints self"
     "stage_input_names (load_events env' self) = stage_input_names self"
     "stage_output_names (load_events env' self) = stage_output_names self"
     "stage_input_binning (load_events env' self) = stage_input_binning self"
     "stage_output_binning (load_events env' self) = stage_output_binning self"
    by (simp_all add: load_events_def Let_def)
  show ?thesis
    by (simp add: group_transforms_def sum_outputs_map split_inputs_concat split_outputs_map f)
qed

lemma load_events_fields [simp]:
  "transform_groups (load_events env self) = transform_groups self"
  "error_method (load_events env self) = error_method self"
  "sum_grouped_flavints (load_events env self) = sum_grouped_flavints self"
  "nominal_transforms (load_events env self) = nominal_transforms self"
  "params (load_events env self) = params self"
  by (simp_all add: load_events_def Let_def)

lemma compute_nominal_Inr:
  assumes "compute_nominal_transforms env self h = (self', h', Inr ts)"
  shows "self' = load_events env self \<and>
         in_binning ''true_energy'' (stage_input_binning self) \<and>
         excess_dims (stage_input_binning self) = [] \<and>
         nominal_groups env (load_events env self)
           (binning_to env
              (filter (\<lambda>(dim, unit). in_binning dim (stage_input_binning self)) comp_units)
              (stage_input_binning self))
           (map bin_edges
              (binning_to env
                 (filter (\<lambda>(dim, unit). in_binning dim (stage_output_binning self)) comp_units)
                 (stage_output_binning self)))
           (missing_dims_vol
              (binning_to env
                 (filter (\<lambda>(dim, unit). in_binning dim (stage_input_binning self)) comp_units)
                 (stage_input_binning self)))
           (transform_groups self) h = (h', Inr ts)"
  using assms
  by (auto simp: compute_nominal_transforms_def Let_def split: if_splits prod.splits)

text \<open>
  The input binning in the computational units: the names are kept, and the edges of
  every dimension are converted to the unit that \<open>comp_units\<close> gives for its name.
\<close>

lemma map_of_filter_key:
  "P k \<Longrightarrow> map_of (filter (\<lambda>(a, b). P a) xs) k = map_of xs k"
  by (induction xs) auto

lemma binning_to_own_units:
  "binning_to env (filter (\<lambda>(dim, unit). in_binning dim b) comp_units) b =
     map (\<lambda>d. case map_of comp_units (dim_name d) of
                 None \<Rightarrow> d
               | Some u \<Rightarrow> d\<lparr>dim_units := u,
                              bin_edges := map (convert env (dim_units d) u) (bin_edges d)\<rparr>) b"
proof -
  have "map_of (filter (\<lambda>(dim, unit). in_binning dim b) comp_units) (dim_name d) =
        map_of comp_units (dim_name d)" if "d \<in> set b" for d
  proof -
    from that have "in_binning (dim_name d) b" by (simp add: in_binning_def names_def)
    then show ?thesis by (rule map_of_filter_key)
  qed
  then show ?thesis by (simp add: binning_to_def)
qed

lemma converted_edges:
  "map bin_edges (binning_to env (filter (\<lambda>(dim, unit). in_binning dim b) comp_units) b) =
     map (\<lambda>d. case map_of comp_units (dim_name d) of
                 None \<Rightarrow> bin_edges d
               | Some u \<Rightarrow> map (convert env (dim_units d) u) (bin_edges d)) b"
  unfolding binning_to_own_units by (simp split: option.splits)

text \<open>
  Claim C5. When the nominal computation succeeds, the events are loaded and, for the
  \<open>i\<close>-th group: the input binning in computational units has the names of the input
  binning and its edges converted to the units of \<open>comp_units\<close>; its bin volumes broadcast
  to the shape of the histogram of the group; the array at the \<open>i\<close>-th new address of the
  store has the shape of the histogram, and each of its elements is the element of the
  histogram divided by the volume of its bin times the factor for the missing dimensions
  (not a finite number when that product is zero). Within the shape of the volumes the bin
  of an element is the bin of the same index. The transforms emitted for the group are
  exactly the emitted transforms whose array is at that address.
\<close>

theorem nominal_arrays_are_effective_areas:
  assumes "compute_nominal_transforms env self h = (self', h', Inr ts)"
    and "i < length (transform_groups self)"
  shows "\<exists>evts. events self' = Some evts \<and>
           (let g = transform_groups self ! i;
                ib = binning_to env
                       (filter (\<lambda>(dim, unit). in_binning dim (stage_input_binning self))
                          comp_units)
                       (stage_input_binning self);
                ob = binning_to env
                       (filter (\<lambda>(dim, unit). in_binning dim (stage_output_binning self))
                          comp_units)
                       (stage_output_binning self);
                hist = histogram env evts g (map bin_edges ob)
                         (names (stage_input_binning self)) ''weighted_aeff''
                         (error_method self \<noteq> None);
                vols = bin_volumes env ib
            in names ib = names (stage_input_binning self) \<and>
               map bin_edges ib =
                 map (\<lambda>d. case map_of comp_units (dim_name d) of
                             None \<Rightarrow> bin_edges d
                           | Some u \<Rightarrow> map (convert env (dim_units d) u) (bin_edges d))
                     (stage_input_binning self) \<and>
               broadcasts_to (shape vols) (shape hist) \<and>
               shape (h' ! (length h + i)) = shape hist \<and>
               (\<forall>idx. item (h' ! (length h + i)) idx =
                        fdiv (item hist idx)
                          (item vols (bcast_index (shape vols) idx) * missing_dims_vol ib)) \<and>
               (\<forall>idx. in_bounds idx (shape vols) \<longrightarrow>
                        item (h' ! (length h + i)) idx =
                        fdiv (item hist idx) (item vols idx * missing_dims_vol ib)) \<and>
               (\<forall>T \<in> set (group_transforms env self g (length h + i)). T \<in> set ts) \<and>
               (\<forall>T \<in> set ts. xform_array T = length h + i \<longrightarrow>
                    T \<in> set (group_transforms env self g (length h + i))))"
proof -
  let ?self = "load_events env self"
  let ?ib = "binning_to env
               (filter (\<lambda>(dim, unit). in_binning dim (stage_input_binning self)) comp_units)
               (stage_input_binning self)"
  let ?edges = "map bin_edges
                  (binning_to env
                     (filter (\<lambda>(dim, unit). in_binning dim (stage_output_binning self))
                        comp_units)
                     (stage_output_binning self))"
  let ?gs = "transform_groups self"
  let ?vols = "bin_volumes env ?ib"
  let ?mdv = "missing_dims_vol ?ib"
  from compute_nominal_Inr [OF assms(1)]
  have self': "self' = ?self"
    and run: "nominal_groups env ?self ?ib ?edges ?mdv ?gs h = (h', Inr ts)"
    by simp_all
  from assms(2) have ne: "?gs \<noteq> []" by auto
  from nominal_groups_Inr [OF run] ne obtain evts where ev: "events ?self = Some evts"
    by auto
  let ?hist = "\<lambda>g. histogram env evts g ?edges (names (stage_input_binning self))
                       ''weighted_aeff'' (error_method self \<noteq> None)"
  from nominal_groups_Inr [OF run] ev
  have h': "h' = h @ map (\<lambda>g. \<lparr>shape = shape (?hist g),
                                  item = effective_area (?hist g) ?vols ?mdv\<rparr>) ?gs"
    and bc: "\<forall>g \<in> set ?gs. broadcasts_to (shape ?vols) (shape (?hist g))"
    and ts: "ts = nominal_of env ?self ?gs (length h)"
    by simp_all
  have 0: "names ?ib = names (stage_input_binning self)"
    by (simp add: names_def binning_to_def comp_def split: option.splits cong: map_cong)
  have 1: "broadcasts_to (shape ?vols) (shape (?hist (?gs ! i)))"
    using bc assms(2) by simp
  have arr: "h' ! (length h + i) =
               \<lparr>shape = shape (?hist (?gs ! i)),
                item = effective_area (?hist (?gs ! i)) ?vols ?mdv\<rparr>"
    using assms(2) by (simp add: h' nth_append)
  have 2: "shape (h' ! (length h + i)) = shape (?hist (?gs ! i))"
    by (simp add: arr)
  have 3: "\<forall>idx. item (h' ! (length h + i)) idx =
             fdiv (item (?hist (?gs ! i)) idx)
               (item ?vols (bcast_index (shape ?vols) idx) * ?mdv)"
    by (simp add: arr effective_area_def)
  have same: "\<forall>idx. in_bounds idx (shape ?vols) \<longrightarrow>
             item (h' ! (length h + i)) idx =
             fdiv (item (?hist (?gs ! i)) idx) (item ?vols idx * ?mdv)"
    using 3 by (simp add: bcast_index_same)
  have mem: "T \<in> set ts \<longleftrightarrow>
               (\<exists>j < length ?gs. T \<in> set (group_transforms env self (?gs ! j) (length h + j)))"
    for T
    by (simp add: ts nominal_of_members)
  have 4: "\<forall>T \<in> set (group_transforms env self (?gs ! i) (length h + i)). T \<in> set ts"
    using assms(2) mem by blast
  have 5: "\<forall>T \<in> set ts. xform_array T = length h + i \<longrightarrow>
             T \<in> set (group_transforms env self (?gs ! i) (length h + i))"
  proof (intro ballI impI)
    fix T assume "T \<in> set ts" and a: "xform_array T = length h + i"
    then obtain j where "j < length ?gs"
      and T: "T \<in> set (group_transforms env self (?gs ! j) (length h + j))"
      using mem by blast
    from group_transforms_array [OF T] a have "j = i" by simp
    with T show "T \<in> set (group_transforms env self (?gs ! i) (length h + i))" by simp
  qed
  from ev self' 0 converted_edges [of env "stage_input_binning self"] 1 2 3 same 4 5
  show ?thesis by (simp add: Let_def)
qed

text \<open>
  On the unmerged example stage with the energy in TeV: the edges become 1 and 10 GeV, the
  bin has the volume 9, and the histogram of 36 gives 36 / (9 * 4 * np.pi).
\<close>

theorem nominal_arrays_are_effective_areas_witness:
  "map bin_edges
     (binning_to pisa (filter (\<lambda>(dim, unit). in_binning dim tev_binning) comp_units)
        tev_binning) = [[1, 10]] \<and>
   shape (fst (snd (compute_nominal_transforms pisa (tau_stage tev_binning) [])) ! 0) = [1] \<and>
   item (fst (snd (compute_nominal_transforms pisa (tau_stage tev_binning) [])) ! 0) [0]
     = Finite (36 / (9 * (4 * np_pi))) \<and>
   map_sum id (map xform_array)
     (snd (snd (compute_nominal_transforms pisa (tau_stage tev_binning) []))) = Inr [0, 0]"
proof -
  let ?S = "tau_stage tev_binning"
  let ?r = "compute_nominal_transforms pisa ?S []"
  let ?TS = "[\<lparr>input_names = [''nutau''], output_name = ''nutau_cc'',
               input_binning = tev_binning, output_binning = tev_binning,
               xform_array = 0, sum_inputs = False\<rparr>,
              \<lparr>input_names = [''nutau''], output_name = ''nutau_nc'',
               input_binning = tev_binning, output_binning = tev_binning,
               xform_array = 0, sum_inputs = False\<rparr>]"
  let ?IB = "binning_to pisa
               (filter (\<lambda>(dim, unit). in_binning dim (stage_input_binning ?S)) comp_units)
               (stage_input_binning ?S)"
  let ?OB = "binning_to pisa
               (filter (\<lambda>(dim, unit). in_binning dim (stage_output_binning ?S)) comp_units)
               (stage_output_binning ?S)"
  let ?H = "\<lambda>evts. histogram pisa evts (transform_groups ?S ! 0) (map bin_edges ?OB)
                      (names (stage_input_binning ?S)) ''weighted_aeff''
                      (error_method ?S \<noteq> None)"
  let ?V = "bin_volumes pisa ?IB"
  have ts: "snd (snd ?r) = Inr ?TS"
    by code_simp
  have run: "?r = (fst ?r, fst (snd ?r), Inr ?TS)"
    using ts by (metis prod.collapse)
  have g: "0 < length (transform_groups ?S)"
    by (simp add: tau_stage_def)
  have ev: "events (fst ?r) = Some 36"
    by code_simp
  from nominal_arrays_are_effective_areas [OF run g]
  have "\<exists>evts. events (fst ?r) = Some evts \<and>
          shape (fst (snd ?r) ! 0) = shape (?H evts) \<and>
          (\<forall>idx. in_bounds idx (shape ?V) \<longrightarrow>
             item (fst (snd ?r) ! 0) idx =
             fdiv (item (?H evts) idx) (item ?V idx * missing_dims_vol ?IB))"
    by (auto simp: Let_def)
  with ev have sh: "shape (fst (snd ?r) ! 0) = shape (?H 36)"
    and it: "\<forall>idx. in_bounds idx (shape ?V) \<longrightarrow>
             item (fst (snd ?r) ! 0) idx =
             fdiv (item (?H 36) idx) (item ?V idx * missing_dims_vol ?IB)"
    by auto
  have b: "in_bounds [0] (shape ?V)"
    by code_simp
  have v: "fdiv (item (?H 36) [0]) (item ?V [0] * missing_dims_vol ?IB)
             = Finite (36 / (9 * (4 * np_pi)))"
    by code_simp
  have s: "shape (?H 36) = [1]"
    by code_simp
  have e: "map bin_edges
     (binning_to pisa (filter (\<lambda>(dim, unit). in_binning dim tev_binning) comp_units)
        tev_binning) = [[1, 10]]"
    by code_simp
  from it b v have "item (fst (snd ?r) ! 0) [0] = Finite (36 / (9 * (4 * np_pi)))"
    by simp
  with sh s e ts show ?thesis by simp
qed

subsection \<open>The rescaling\<close>

lemma first_match_array_props:
  assumes "first_match_array self sc lt t h = (a, h')"
  shows "(\<exists>ys. h' = h @ ys) \<and> length h \<le> a \<and> a < length h' \<and>
         h' ! a = rescaled self sc lt (output_name t) (h ! xform_array t)"
  using assms
  by (auto simp: first_match_array_def rescaled_def alloc_def Let_def nth_append
           split: if_splits)

lemma matches_Cons:
  "input_names t = first # rest \<Longrightarrow>
   matches env g t = (first \<in> set (flavs env g) \<and> contains env g (output_name t))"
  by (simp add: matches_def)

lemma new_xform_eq:
  "\<lparr>input_names = input_names t, output_name = output_name t,
    input_binning = input_binning t, output_binning = output_binning t,
    xform_array = a, sum_inputs = f\<rparr> = t\<lparr>xform_array := a, sum_inputs := f\<rparr>"
  by (cases t) simp

lemma rescale_group_Some:
  "rescale_group env self sc lt g (flavs env g) ts (Some a) h =
     (h, if \<forall>t \<in> set ts. input_names t \<noteq> []
         then Inr (map (\<lambda>t. t\<lparr>xform_array := a, sum_inputs := sum_grouped_flavints self\<rparr>)
                     (filter (matches env g) ts))
         else Inl IndexError)"
proof (induction ts)
  case Nil
  show ?case by simp
next
  case (Cons t ts)
  show ?case
  proof (cases "input_names t")
    case Nil
    then show ?thesis by simp
  next
    case (Cons first rest)
    then show ?thesis
      using Cons.IH by (simp add: matches_Cons [OF Cons] new_xform_eq)
  qed
qed

lemma rescale_group_skip:
  "input_names t = first # rest \<Longrightarrow> \<not> matches env g t \<Longrightarrow>
   rescale_group env self sc lt g (flavs env g) (t # ts) aeff h =
     rescale_group env self sc lt g (flavs env g) ts aeff h"
  by (auto simp: matches_def)

lemma rescale_group_hit:
  "input_names t = first # rest \<Longrightarrow> matches env g t \<Longrightarrow>
   first_match_array self sc lt t h = (a, h1) \<Longrightarrow>
   rescale_group env self sc lt g (flavs env g) (t # ts) None h =
     (h1, if \<forall>t \<in> set ts. input_names t \<noteq> []
          then Inr (map (\<lambda>t. t\<lparr>xform_array := a, sum_inputs := sum_grouped_flavints self\<rparr>)
                      (t # filter (matches env g) ts))
          else Inl IndexError)"
  by (auto simp: matches_def rescale_group_Some new_xform_eq)

lemma rescale_group_heap:
  "rescale_group env self sc lt g (flavs env g) ts aeff h = (h', r) \<Longrightarrow> \<exists>ys. h' = h @ ys"
proof (induction ts arbitrary: aeff h h' r)
  case Nil
  then show ?case by simp
next
  case (Cons t ts)
  show ?case
  proof (cases aeff)
    case (Some a)
    with Cons.prems show ?thesis
      by (auto simp: rescale_group_Some simp del: rescale_group.simps)
  next
    case None
    show ?thesis
    proof (cases "input_names t")
      case Nil
      with Cons.prems show ?thesis by simp
    next
      case (Cons first rest)
      show ?thesis
      proof (cases "matches env g t")
        case False
        from Cons.prems have "rescale_group env self sc lt g (flavs env g) ts aeff h = (h', r)"
          by (simp only: rescale_group_skip [OF Cons False])
        then show ?thesis by (rule Cons.IH)
      next
        case True
        obtain a h1 where f: "first_match_array self sc lt t h = (a, h1)"
          by (cases "first_match_array self sc lt t h")
        from Cons.prems None have "h' = h1"
          by (simp add: rescale_group_hit [OF Cons True f] del: rescale_group.simps)
        with first_match_array_props [OF f] show ?thesis by simp
      qed
    qed
  qed
qed

lemma rescale_group_None_Inr:
  assumes "rescale_group env self sc lt g (flavs env g) ts None h = (h', Inr out)"
  shows "(filter (matches env g) ts = [] \<and> out = [] \<and> h' = h) \<or>
         (\<exists>t0 rest a. filter (matches env g) ts = t0 # rest \<and>
            first_match_array self sc lt t0 h = (a, h') \<and>
            out = map (\<lambda>t. t\<lparr>xform_array := a, sum_inputs := sum_grouped_flavints self\<rparr>)
                    (t0 # rest))"
  using assms
proof (induction ts)
  case Nil
  then show ?case by simp
next
  case (Cons t ts)
  from Cons.prems obtain first rest where inp: "input_names t = first # rest"
    by (cases "input_names t") auto
  show ?case
  proof (cases "matches env g t")
    case False
    from Cons.prems
    have "rescale_group env self sc lt g (flavs env g) ts None h = (h', Inr out)"
      by (simp only: rescale_group_skip [OF inp False])
    from Cons.IH [OF this] False show ?thesis by simp
  next
    case True
    obtain a h1 where f: "first_match_array self sc lt t h = (a, h1)"
      by (cases "first_match_array self sc lt t h")
    from Cons.prems
    have "h' = h1 \<and> out = map (\<lambda>t. t\<lparr>xform_array := a,
                                        sum_inputs := sum_grouped_flavints self\<rparr>)
                             (t # filter (matches env g) ts)"
      by (auto simp: rescale_group_hit [OF inp True f] simp del: rescale_group.simps
               split: if_splits)
    with True f show ?thesis by simp
  qed
qed


lemma rescale_group_None_members:
  assumes "rescale_group env self sc lt g (flavs env g) ts None h = (h', Inr out)"
  shows "\<exists>a. out = map (\<lambda>t. t\<lparr>xform_array := a, sum_inputs := sum_grouped_flavints self\<rparr>)
                      (filter (matches env g) ts) \<and>
             (out \<noteq> [] \<longrightarrow>
                length h \<le> a \<and> a < length h' \<and>
                (\<exists>t0 rest. filter (matches env g) ts = t0 # rest \<and>
                   h' ! a = rescaled self sc lt (output_name t0) (h ! xform_array t0)))"
proof -
  from rescale_group_None_Inr [OF assms]
  show ?thesis
  proof
    assume "filter (matches env g) ts = [] \<and> out = [] \<and> h' = h"
    then show ?thesis by simp
  next
    assume "\<exists>t0 rest a. filter (matches env g) ts = t0 # rest \<and>
            first_match_array self sc lt t0 h = (a, h') \<and>
            out = map (\<lambda>t. t\<lparr>xform_array := a, sum_inputs := sum_grouped_flavints self\<rparr>)
                    (t0 # rest)"
    then obtain t0 rest a where f: "filter (matches env g) ts = t0 # rest"
      and fm: "first_match_array self sc lt t0 h = (a, h')"
      and out: "out = map (\<lambda>t. t\<lparr>xform_array := a,
                                    sum_inputs := sum_grouped_flavints self\<rparr>) (t0 # rest)"
      by blast
    from first_match_array_props [OF fm] f out show ?thesis
      by (intro exI [of _ a]) auto
  qed
qed

lemma rescale_groups_heap:
  "rescale_groups env self sc lt gs h = (h', r) \<Longrightarrow> \<exists>ys. h' = h @ ys"
proof (induction gs arbitrary: h h' r)
  case Nil
  then show ?case by simp
next
  case (Cons g gs)
  show ?case
  proof (cases g)
    case Nil
    with Cons.prems show ?thesis by simp
  next
    case (Cons k ks)
    obtain h1 r1 where g1: "rescale_group env self sc lt g (flavs env g)
                              (nominal_transforms self) None h = (h1, r1)"
      by (cases "rescale_group env self sc lt g (flavs env g) (nominal_transforms self) None h")
    from rescale_group_heap [OF g1] obtain ys where h1: "h1 = h @ ys" by blast
    show ?thesis
    proof (cases r1)
      case (Inl e)
      with Cons.prems Cons g1 h1 show ?thesis by auto
    next
      case (Inr ts)
      obtain h2 r2 where g2: "rescale_groups env self sc lt gs h1 = (h2, r2)"
        by (cases "rescale_groups env self sc lt gs h1")
      from Cons.IH [OF g2] obtain zs where "h2 = h1 @ zs" by blast
      moreover from Cons.prems Cons g1 Inr g2 have "h' = h2"
        by (auto split: sum.splits)
      ultimately show ?thesis using h1 by simp
    qed
  qed
qed

lemma same_structure_update [simp]:
  "same_structure (T\<lparr>xform_array := a, sum_inputs := f\<rparr>) T"
  by (simp add: same_structure_def)


text \<open>
  What the rescaling puts into the array of an emitted transform: the rescaled array of
  the first nominal transform that matches the group, with the output name of that first
  transform.
\<close>

lemma rescale_groups_arrays:
  assumes "rescale_groups env self sc lt gs h = (h', Inr out)"
    and "\<forall>T \<in> set (nominal_transforms self). xform_array T < length h"
  shows "\<forall>T' \<in> set out. \<exists>g \<in> set gs. \<exists>t0 rest.
           filter (matches env g) (nominal_transforms self) = t0 # rest \<and>
           (\<exists>T \<in> set (t0 # rest). same_structure T' T) \<and>
           h' ! xform_array T' = rescaled self sc lt (output_name t0) (h ! xform_array t0)"
  using assms
proof (induction gs arbitrary: h h' out)
  case Nil
  then show ?case by simp
next
  case (Cons g gs)
  from Cons.prems obtain k ks where g: "g = k # ks"
    by (cases g) auto
  obtain h1 r1 where g1: "rescale_group env self sc lt g (flavs env g)
                            (nominal_transforms self) None h = (h1, r1)"
    by (cases "rescale_group env self sc lt g (flavs env g) (nominal_transforms self) None h")
  from Cons.prems g g1 obtain ts1 where r1: "r1 = Inr ts1"
    by (cases r1) auto
  obtain h2 r2 where g2: "rescale_groups env self sc lt gs h1 = (h2, r2)"
    by (cases "rescale_groups env self sc lt gs h1")
  from Cons.prems g g1 r1 g2 obtain ts2 where r2: "r2 = Inr ts2"
    and h': "h' = h2" and out: "out = ts1 @ ts2"
    by (cases r2) auto
  from rescale_group_heap [OF g1] obtain ys where ys: "h1 = h @ ys" by blast
  from rescale_groups_heap [OF g2] h' obtain zs where zs: "h' = h1 @ zs" by blast
  from rescale_group_None_members [OF g1 [unfolded r1]] obtain a where
    ts1: "ts1 = map (\<lambda>t. t\<lparr>xform_array := a, sum_inputs := sum_grouped_flavints self\<rparr>)
                  (filter (matches env g) (nominal_transforms self))"
    and a: "ts1 \<noteq> [] \<longrightarrow> length h \<le> a \<and> a < length h1 \<and>
              (\<exists>t0 rest. filter (matches env g) (nominal_transforms self) = t0 # rest \<and>
                 h1 ! a = rescaled self sc lt (output_name t0) (h ! xform_array t0))"
    by blast
  have wf1: "\<forall>T \<in> set (nominal_transforms self). xform_array T < length h1"
    using Cons.prems(2) ys by auto
  note IH = Cons.IH [OF g2 [unfolded r2 h' [symmetric]] wf1]
  show ?case
  proof
    fix T' assume T': "T' \<in> set out"
    show "\<exists>g' \<in> set (g # gs). \<exists>t0 rest.
           filter (matches env g') (nominal_transforms self) = t0 # rest \<and>
           (\<exists>T \<in> set (t0 # rest). same_structure T' T) \<and>
           h' ! xform_array T' = rescaled self sc lt (output_name t0) (h ! xform_array t0)"
    proof (cases "T' \<in> set ts1")
      case True
      then have ne: "ts1 \<noteq> []" by auto
      with a obtain t0 rest where
        f: "filter (matches env g) (nominal_transforms self) = t0 # rest"
        and v: "h1 ! a = rescaled self sc lt (output_name t0) (h ! xform_array t0)"
        and lt: "a < length h1"
        by blast
      from True ts1 f obtain T where T: "T \<in> set (t0 # rest)"
        and e: "T' = T\<lparr>xform_array := a, sum_inputs := sum_grouped_flavints self\<rparr>"
        by auto
      from e have s: "same_structure T' T" and x: "xform_array T' = a" by simp_all
      from lt v have "h' ! a = rescaled self sc lt (output_name t0) (h ! xform_array t0)"
        by (simp add: zs nth_append)
      with f T s x show ?thesis by auto
    next
      case False
      with T' out have "T' \<in> set ts2" by simp
      with IH obtain g' t0 rest where g': "g' \<in> set gs"
        and f: "filter (matches env g') (nominal_transforms self) = t0 # rest"
        and s: "\<exists>T \<in> set (t0 # rest). same_structure T' T"
        and v: "h' ! xform_array T' = rescaled self sc lt (output_name t0) (h1 ! xform_array t0)"
        by blast
      have "t0 \<in> set (filter (matches env g') (nominal_transforms self))"
        unfolding f by simp
      then have "t0 \<in> set (nominal_transforms self)"
        by simp
      with Cons.prems(2) have "h1 ! xform_array t0 = h ! xform_array t0"
        by (simp add: ys nth_append)
      with v have v': "h' ! xform_array T' =
                         rescaled self sc lt (output_name t0) (h ! xform_array t0)"
        by simp
      from g' have "g' \<in> set (g # gs)" by simp
      with f s v' show ?thesis by blast
    qed
  qed
qed

text \<open>
  A nominal cache built by the nominal computation: its transforms have the summing flag
  of the stage, and their arrays are in the store.
\<close>

lemma group_transforms_flag:
  "T \<in> set (group_transforms env self g a) \<Longrightarrow> sum_inputs T = sum_grouped_flavints self"
  by (auto simp: group_transforms_def sum_outputs_map split_inputs_concat split_outputs_map
           split: if_splits)

lemma nominal_cache_wellformed:
  assumes "compute_nominal_transforms env self h = (self', h', Inr ts)"
  shows "\<forall>T \<in> set ts. sum_inputs T = sum_grouped_flavints self' \<and> xform_array T < length h'"
proof
  fix T assume T: "T \<in> set ts"
  from compute_nominal_Inr [OF assms] have self': "self' = load_events env self"
    and run: "nominal_groups env (load_events env self)
           (binning_to env
              (filter (\<lambda>(dim, unit). in_binning dim (stage_input_binning self)) comp_units)
              (stage_input_binning self))
           (map bin_edges
              (binning_to env
                 (filter (\<lambda>(dim, unit). in_binning dim (stage_output_binning self)) comp_units)
                 (stage_output_binning self)))
           (missing_dims_vol
              (binning_to env
                 (filter (\<lambda>(dim, unit). in_binning dim (stage_input_binning self)) comp_units)
                 (stage_input_binning self)))
           (transform_groups self) h = (h', Inr ts)"
    by simp_all
  note r = nominal_groups_Inr [OF run]
  from r have ts: "ts = nominal_of env (load_events env self) (transform_groups self) (length h)"
    by simp
  with T obtain j where j: "j < length (transform_groups self)"
    and Tj: "T \<in> set (group_transforms env self (transform_groups self ! j) (length h + j))"
    by (auto simp: nominal_of_members)
  from j have "transform_groups self \<noteq> []" by auto
  with r obtain evts where ev: "events (load_events env self) = Some evts" by auto
  with r have "length h' = length h + length (transform_groups self)"
    by auto
  with j group_transforms_array [OF Tj] have "xform_array T < length h'" by simp
  moreover from group_transforms_flag [OF Tj] have "sum_inputs T = sum_grouped_flavints self'"
    by (simp add: self')
  ultimately show "sum_inputs T = sum_grouped_flavints self' \<and> xform_array T < length h'"
    by simp
qed

text \<open>The example stage with its nominal cache, and its first run.\<close>

lemma tau_full_nominal:
  "fst (compute_nominal_transforms pisa (tau_stage full_binning) []) =
     load_events pisa (tau_stage full_binning) \<and>
   snd (snd (compute_nominal_transforms pisa (tau_stage full_binning) [])) = Inr tau_nominal"
  by code_simp

lemma tau_first_run:
  "fst (first_run pisa (tau_stage full_binning) []) = tau_cached \<and>
   fst (snd (first_run pisa (tau_stage full_binning) [])) =
     fst (compute_transforms pisa tau_cached tau_heap) \<and>
   snd (snd (first_run pisa (tau_stage full_binning) [])) =
     snd (compute_transforms pisa tau_cached tau_heap)"
proof -
  obtain s h where r: "compute_nominal_transforms pisa (tau_stage full_binning) [] =
                         (s, h, Inr tau_nominal)"
    using tau_full_nominal by (metis prod.collapse)
  with tau_full_nominal have s: "s = load_events pisa (tau_stage full_binning)" by simp
  from r have h: "h = tau_heap" by (simp add: tau_heap_def)
  show ?thesis
    by (simp add: first_run_def r s h tau_cached_def split: prod.splits)
qed




text \<open>
  Claim C1 does not hold of the code. The tau normalisation is applied when the array of
  a group is computed, from the first nominal transform that matches the group, and that
  array is then given to every transform of the group. In the first run of the unmerged
  example stage the group of \<open>nutau_cc\<close> and \<open>nutau_nc\<close> has the nominal array of the one
  element 2 for both output names; the scale times the live time is 15 and the
  normalisation is 7. The emitted array for \<open>nutau_nc\<close> has the element 210, not the 30 of
  the specification.
\<close>

theorem tau_norm_applied_to_nutau_nc:
  "sum_grouped_flavints (tau_stage full_binning) = False \<and>
   transform_groups (tau_stage full_binning) ! 0 = [nutau_cc, nutau_nc] \<and>
   map (\<lambda>T. (output_name T,
              shape (fst (snd (first_run pisa (tau_stage full_binning) [])) ! xform_array T),
              item (fst (snd (first_run pisa (tau_stage full_binning) [])) ! xform_array T)
                [0, 0, 0]))
     (nominal_transforms (fst (first_run pisa (tau_stage full_binning) []))) =
     [(''nutau_cc'', [1, 1, 1], Finite 2), (''nutau_nc'', [1, 1, 1], Finite 2)] \<and>
   map_sum id
     (map (\<lambda>T. (output_name T,
                 shape (fst (snd (first_run pisa (tau_stage full_binning) [])) ! xform_array T),
                 item (fst (snd (first_run pisa (tau_stage full_binning) [])) ! xform_array T)
                   [0, 0, 0])))
     (snd (snd (first_run pisa (tau_stage full_binning) []))) =
     Inr [(''nutau_cc'', [1, 1, 1], Finite 210), (''nutau_nc'', [1, 1, 1], Finite 210)] \<and>
   m_as pisa (aeff_scale example_params) ''dimensionless''
     * m_as pisa (livetime example_params) ''sec'' = 15 \<and>
   magnitude (nutau_cc_norm example_params) = 7 \<and>
   item (rescaled (tau_stage full_binning) 3 5 ''nutau_nc''
           \<lparr>shape = [1, 1, 1], item = (\<lambda>idx. Finite 2)\<rparr>) [0, 0, 0] = Finite 30"
  by code_simp

end
